theory Spec2Isabelle
  imports Complex_Main
begin

section \<open>Python values and the failures of the built-in operations\<close>

text \<open>
  The values that travel on the settings bus are dynamically typed. The settings of
  \<^verbatim>\<open>_SETTINGS_CLASS\<close> use the data types bool, int, str and obj (a list or None), so
  these are the shapes of \<open>pyval\<close>. Every exception raised by a built-in operation the
  device code performs is a constructor of \<open>error\<close>.
\<close>

datatype pyval = PNone | PBool bool | PInt int | PStr string | PList "pyval list"

datatype error = KeyError | TypeError | ValueError | ZeroDivisionError | IndexError | OtherError string

text \<open>\<^verbatim>\<open>bool(value)\<close>: Python truthiness.\<close>

fun py_bool :: "pyval \<Rightarrow> bool" where
  "py_bool PNone = False"
| "py_bool (PBool b) = b"
| "py_bool (PInt i) = (i \<noteq> 0)"
| "py_bool (PStr s) = (s \<noteq> [])"
| "py_bool (PList l) = (l \<noteq> [])"

text \<open>
  \<^verbatim>\<open>int(value)\<close>. Strings are sequences of ASCII characters. Python strips the
  whitespace around the literal (space, the control characters 9 to 13 and 28 to 31),
  then reads an optional sign and decimal digits, where single underscores may stand
  between digits; anything else is a ValueError.
\<close>

definition digit_val :: "char \<Rightarrow> nat option" where
  "digit_val c = (let n = of_char c :: nat in if 48 \<le> n \<and> n \<le> 57 then Some (n - 48) else None)"

definition is_space :: "char \<Rightarrow> bool" where
  "is_space c = (let n = of_char c :: nat in n = 32 \<or> (9 \<le> n \<and> n \<le> 13) \<or> (28 \<le> n \<and> n \<le> 31))"

definition strip :: "string \<Rightarrow> string" where
  "strip s = rev (dropWhile is_space (rev (dropWhile is_space s)))"

text \<open>The digits after the first one: an underscore must be followed by a digit.\<close>

fun digits_val :: "nat \<Rightarrow> string \<Rightarrow> nat option" where
  "digits_val acc [] = Some acc"
| "digits_val acc [c] =
     (case digit_val c of None \<Rightarrow> None | Some d \<Rightarrow> Some (10 * acc + d))"
| "digits_val acc (c # c' # cs) =
     (if c = CHR ''_'' then
        (case digit_val c' of None \<Rightarrow> None | Some d \<Rightarrow> digits_val (10 * acc + d) cs)
      else
        (case digit_val c of None \<Rightarrow> None | Some d \<Rightarrow> digits_val (10 * acc + d) (c' # cs)))"

definition number_val :: "string \<Rightarrow> nat option" where
  "number_val s =
     (case s of
        [] \<Rightarrow> None
      | c # cs \<Rightarrow> (case digit_val c of None \<Rightarrow> None | Some d \<Rightarrow> digits_val d cs))"

definition int_of_str :: "string \<Rightarrow> error + int" where
  "int_of_str s =
     (case strip s of
        [] \<Rightarrow> Inl ValueError
      | c # cs \<Rightarrow>
          if c = CHR ''-'' then
            (case number_val cs of None \<Rightarrow> Inl ValueError | Some n \<Rightarrow> Inr (- int n))
          else if c = CHR ''+'' then
            (case number_val cs of None \<Rightarrow> Inl ValueError | Some n \<Rightarrow> Inr (int n))
          else (case number_val (c # cs) of None \<Rightarrow> Inl ValueError | Some n \<Rightarrow> Inr (int n)))"

text \<open>\<^verbatim>\<open>str(i)\<close> for an int: its decimal digits, after a minus sign when negative.\<close>

fun str_of_nat :: "nat \<Rightarrow> string" where
  "str_of_nat n =
     (if n < 10 then [char_of (48 + n)]
      else str_of_nat (n div 10) @ [char_of (48 + n mod 10)])"

declare str_of_nat.simps [simp del]

definition str_of_int :: "int \<Rightarrow> string" where
  "str_of_int i = (if i < 0 then CHR ''-'' # str_of_nat (nat (- i)) else str_of_nat (nat i))"

fun py_int :: "pyval \<Rightarrow> error + int" where
  "py_int PNone = Inl TypeError"
| "py_int (PBool b) = Inr (if b then 1 else 0)"
| "py_int (PInt i) = Inr i"
| "py_int (PStr s) = int_of_str s"
| "py_int (PList l) = Inl TypeError"

text \<open>\<^verbatim>\<open>a // value\<close> for an int \<open>a\<close>: floor division, which is \<open>div\<close> on \<open>int\<close>.\<close>

fun py_floordiv :: "int \<Rightarrow> pyval \<Rightarrow> error + int" where
  "py_floordiv a (PInt i) = (if i = 0 then Inl ZeroDivisionError else Inr (a div i))"
| "py_floordiv a (PBool b) = (if b then Inr (a div 1) else Inl ZeroDivisionError)"
| "py_floordiv a PNone = Inl TypeError"
| "py_floordiv a (PStr s) = Inl TypeError"
| "py_floordiv a (PList l) = Inl TypeError"

text \<open>The number behind a value that compares with an int (bool is a subtype of int).\<close>

fun num_of :: "pyval \<Rightarrow> int option" where
  "num_of (PInt i) = Some i"
| "num_of (PBool b) = Some (if b then 1 else 0)"
| "num_of PNone = None"
| "num_of (PStr s) = None"
| "num_of (PList l) = None"

text \<open>
  \<^verbatim>\<open>min(5, max(0, x))\<close>. \<open>max\<close> and \<open>min\<close> return their first argument unless the second is
  strictly greater (smaller), and return the object itself.
\<close>

definition clamp05 :: "pyval \<Rightarrow> error + pyval" where
  "clamp05 x =
     (case num_of x of
        None \<Rightarrow> Inl TypeError
      | Some n \<Rightarrow> Inr (let m = (if n > 0 then x else PInt 0);
                         k = (if n > 0 then n else 0)
                     in if k < 5 then m else PInt 5))"

text \<open>\<^verbatim>\<open>i_min, i_max = value\<close>: unpacking a sequence into two names.\<close>

fun unpack2 :: "pyval \<Rightarrow> error + (pyval \<times> pyval)" where
  "unpack2 (PList [a, b]) = Inr (a, b)"
| "unpack2 (PList l) = Inl ValueError"
| "unpack2 (PStr [a, b]) = Inr (PStr [a], PStr [b])"
| "unpack2 (PStr s) = Inl ValueError"
| "unpack2 PNone = Inl TypeError"
| "unpack2 (PBool b) = Inl TypeError"
| "unpack2 (PInt i) = Inl TypeError"

subsection \<open>Strings\<close>

fun startswith :: "string \<Rightarrow> string \<Rightarrow> bool" where
  "startswith s [] = True"
| "startswith [] (p # ps) = False"
| "startswith (c # cs) (p # ps) = (c = p \<and> startswith cs ps)"

definition endswith :: "string \<Rightarrow> string \<Rightarrow> bool" where
  "endswith s p = startswith (rev s) (rev p)"

fun split_on :: "char \<Rightarrow> string \<Rightarrow> string list" where
  "split_on c [] = [[]]"
| "split_on c (x # xs) =
     (if x = c then [] # split_on c xs
      else (case split_on c xs of [] \<Rightarrow> [[x]] | w # ws \<Rightarrow> (x # w) # ws))"

section \<open>The static tables of js220.py\<close>

text \<open>
  A signal descriptor of \<^verbatim>\<open>_SIGNALS\<close>: name, dtype, units, default and the pair of driver
  topics (control topic, data topic). The settings handler tests the control topic against
  None, so it is an option here. The user-interface texts (brief, detail) take no part in
  any operation and are left out.
\<close>

record signal_info =
  sig_name :: string
  sig_dtype :: string
  sig_units :: string
  sig_default :: bool
  sig_topics :: "string option \<times> string"

definition SIGNALS :: "(string \<times> signal_info) list" where
  "SIGNALS =
    [(''i'', \<lparr>sig_name = ''current'', sig_dtype = ''f32'', sig_units = ''A'',
             sig_default = True, sig_topics = (Some ''s/i/ctrl'', ''s/i/!data'')\<rparr>),
     (''v'', \<lparr>sig_name = ''voltage'', sig_dtype = ''f32'', sig_units = ''V'',
             sig_default = True, sig_topics = (Some ''s/v/ctrl'', ''s/v/!data'')\<rparr>),
     (''p'', \<lparr>sig_name = ''power'', sig_dtype = ''f32'', sig_units = ''W'',
             sig_default = True, sig_topics = (Some ''s/p/ctrl'', ''s/p/!data'')\<rparr>),
     (''r'', \<lparr>sig_name = ''current range'', sig_dtype = ''u8'', sig_units = '''',
             sig_default = False, sig_topics = (Some ''s/i/range/ctrl'', ''s/i/range/!data'')\<rparr>),
     (''0'', \<lparr>sig_name = ''gpi[0]'', sig_dtype = ''u1'', sig_units = '''',
             sig_default = False, sig_topics = (Some ''s/gpi/0/ctrl'', ''s/gpi/0/!data'')\<rparr>),
     (''1'', \<lparr>sig_name = ''gpi[1]'', sig_dtype = ''u1'', sig_units = '''',
             sig_default = False, sig_topics = (Some ''s/gpi/1/ctrl'', ''s/gpi/1/!data'')\<rparr>),
     (''2'', \<lparr>sig_name = ''gpi[2]'', sig_dtype = ''u1'', sig_units = '''',
             sig_default = False, sig_topics = (Some ''s/gpi/2/ctrl'', ''s/gpi/2/!data'')\<rparr>),
     (''3'', \<lparr>sig_name = ''gpi[3]'', sig_dtype = ''u1'', sig_units = '''',
             sig_default = False, sig_topics = (Some ''s/gpi/3/ctrl'', ''s/gpi/3/!data'')\<rparr>),
     (''T'', \<lparr>sig_name = ''trigger_in'', sig_dtype = ''u1'', sig_units = '''',
             sig_default = False, sig_topics = (Some ''s/gpi/7/ctrl'', ''s/gpi/7/!data'')\<rparr>)]"

definition GPO_BIT :: "(string \<times> int) list" where
  "GPO_BIT = [(''0'', 1), (''1'', 2), (''T'', 128)]"

text \<open>\<^verbatim>\<open>d[key]\<close> on a dict: a missing key raises KeyError.\<close>

definition dict_get :: "('k \<times> 'a) list \<Rightarrow> 'k \<Rightarrow> error + 'a" where
  "dict_get d k = (case map_of d k of None \<Rightarrow> Inl KeyError | Some v \<Rightarrow> Inr v)"

text \<open>\<^verbatim>\<open>xs[i]\<close> for \<open>i \<ge> 0\<close>, \<^verbatim>\<open>xs[-1]\<close> and \<^verbatim>\<open>xs[0] = v\<close> on a list: IndexError out of range.\<close>

definition list_get :: "'a list \<Rightarrow> nat \<Rightarrow> error + 'a" where
  "list_get xs i = (if i < length xs then Inr (xs ! i) else Inl IndexError)"

definition list_last :: "'a list \<Rightarrow> error + 'a" where
  "list_last xs = (case xs of [] \<Rightarrow> Inl IndexError | _ \<Rightarrow> Inr (last xs))"

definition list_set0 :: "'a list \<Rightarrow> 'a \<Rightarrow> error + 'a list" where
  "list_set0 xs v = (case xs of [] \<Rightarrow> Inl IndexError | _ # ys \<Rightarrow> Inr (v # ys))"

section \<open>The device session\<close>

text \<open>
  The descriptor \<^verbatim>\<open>self._info\<close>: vendor, model, serial number and, once the device has been
  opened, the version strings (hw, fw, fpga).
\<close>

record device_info =
  vendor :: string
  model :: string
  version :: "(string \<times> string \<times> string) option"
  serial_number :: string

text \<open>A command of the worker's queue: \<^verbatim>\<open>(cmd, args)\<close>, args being None or (topic, value).\<close>

type_synonym command = "string \<times> (string \<times> pyval) option"

datatype loglevel = Info | Warning

text \<open>
  What the session does to the world outside, in order: publishing on the application bus
  (\<^verbatim>\<open>_ui_publish\<close>; the descriptor is published as it is), publishing a register to the driver (\<^verbatim>\<open>_driver_publish\<close>), a log record
  (level and format string), starting a worker thread and joining one.
\<close>

datatype event =
    UiPublish string pyval
  | UiPublishInfo string device_info
  | DriverPublish string pyval
  | Log loglevel string
  | ThreadStart nat
  | ThreadJoin nat

text \<open>
  The fields of a \<^verbatim>\<open>Js220\<close> instance that the operations below read or write, and the
  settings they read from the bus (\<open>state\<close>, \<open>target_power\<close>, \<open>current_range\<close>,
  \<open>firmware_channel\<close>). \<open>thread\<close> is \<^verbatim>\<open>self._thread\<close>: the identifier of the referenced
  thread object, or None. \<open>alive\<close> holds the worker threads that are running, \<open>started\<close>
  counts the threads started so far (and names the next one), \<open>trace\<close> records the events.
  \<open>topic_name\<close> is \<^verbatim>\<open>get_topic_name(self)\<close>.
\<close>

record js220 =
  topic_name :: string
  unique_id :: string
  info :: device_info
  driver_device_open :: bool
  thread :: "nat option"
  quit :: bool
  target_power_app :: bool
  queue :: "command list"
  statistics_offsets :: "(int \<times> real \<times> real) option"
  state :: int
  target_power :: bool
  current_range :: int
  firmware_channel :: string
  alive :: "nat set"
  started :: nat
  trace :: "event list"

text \<open>The options of the setting \<^verbatim>\<open>state\<close> in \<^verbatim>\<open>_SETTINGS_OBJ_ONLY\<close>, and its default 0.\<close>

definition STATE_OPTIONS :: "(string \<times> int) list" where
  "STATE_OPTIONS = [(''closed'', 0), (''opening'', 1), (''open'', 2), (''closing'', 3)]"

text \<open>
  Modelled from the spec: the publish/subscribe bus behind \<^verbatim>\<open>_ui_publish\<close> and
  \<^verbatim>\<open>_ui_query\<close> (the base class \<^verbatim>\<open>Device\<close> and the bus are not among the sources).
  \<open>publish(topic, value)\<close> delivers the value and retains it; \<open>query(topic)\<close> reads the
  retained value. The device publishes the state by its option name and compares the
  queried state with the option's number, so the retained state is the number that
  \<open>STATE_OPTIONS\<close> gives the name.
\<close>

definition ui_publish :: "string \<Rightarrow> pyval \<Rightarrow> js220 \<Rightarrow> js220" where
  "ui_publish topic v s =
     (let s' = s\<lparr>trace := trace s @ [UiPublish topic v]\<rparr> in
      if topic = ''settings/state'' then
        (case v of
           PStr name \<Rightarrow> (case map_of STATE_OPTIONS name of Some n \<Rightarrow> s'\<lparr>state := n\<rparr> | None \<Rightarrow> s')
         | PInt n \<Rightarrow> s'\<lparr>state := n\<rparr>
         | _ \<Rightarrow> s')
      else s')"

definition ui_query_state :: "js220 \<Rightarrow> int" where
  "ui_query_state s = state s"

text \<open>
  Modelled from the spec: the hardware transport's \<open>publish(register_topic, value, timeout)\<close>
  behind \<^verbatim>\<open>_driver_publish\<close> (class \<^verbatim>\<open>Device\<close> is not among the sources). With
  \<^verbatim>\<open>timeout=0\<close> the register write is handed to the driver and the call returns.
\<close>

definition driver_publish :: "string \<Rightarrow> pyval \<Rightarrow> js220 \<Rightarrow> js220" where
  "driver_publish topic v s = s\<lparr>trace := trace s @ [DriverPublish topic v]\<rparr>"

definition log_msg :: "loglevel \<Rightarrow> string \<Rightarrow> js220 \<Rightarrow> js220" where
  "log_msg lvl msg s = s\<lparr>trace := trace s @ [Log lvl msg]\<rparr>"

text \<open>\<^verbatim>\<open>_send_to_thread\<close>: the queue is unbounded, so \<^verbatim>\<open>put(block=False)\<close> always succeeds.\<close>

definition send_to_thread :: "string \<Rightarrow> (string \<times> pyval) option \<Rightarrow> js220 \<Rightarrow> js220" where
  "send_to_thread cmd args s = s\<lparr>queue := queue s @ [(cmd, args)]\<rparr>"

text \<open>
  Modelled from the spec: a publish on the same bus of a value that is the device's info
  record (\<^verbatim>\<open>settings/info\<close>); it is delivered and touches no setting the device reads.
\<close>

definition ui_publish_info :: "string \<Rightarrow> device_info \<Rightarrow> js220 \<Rightarrow> js220" where
  "ui_publish_info topic i s = s\<lparr>trace := trace s @ [UiPublishInfo topic i]\<rparr>"

subsection \<open>Opening and closing the device (worker thread)\<close>

text \<open>\<^verbatim>\<open>_version_u32_to_str\<close>: major, minor and patch of a 32-bit version, joined by dots.\<close>

definition version_u32_to_str :: "int \<Rightarrow> string" where
  "version_u32_to_str v =
     str_of_int ((v div 2 ^ 24) mod 256) @ ''.'' @ str_of_int ((v div 2 ^ 16) mod 256)
       @ ''.'' @ str_of_int (v mod 65536)"

text \<open>
  \<^verbatim>\<open>_open\<close>. The driver's \<open>open\<close> either raises (\<open>dev_open_failed\<close>: the warning, the state
  \<^verbatim>\<open>'closing'\<close>, result 1) or returns; then the three version registers are read (here the
  values \<open>hw\<close>, \<open>fw\<close>, \<open>fpga\<close> the queries return), the descriptor gets its version strings
  and is published, statistics are switched on, and the device counts as open
  (\<open>dev_open_ok\<close>, result 0). The subscriptions made on the way change nothing that this
  model records. A failure after the driver's \<open>open\<close> (\<^verbatim>\<open>'driver config failed'\<close>) ends like
  \<open>dev_open_failed\<close>, after some of the steps of \<open>dev_open_ok\<close>.
\<close>

definition dev_open_failed :: "js220 \<Rightarrow> js220" where
  "dev_open_failed s =
     ui_publish ''settings/state'' (PStr ''closing'')
       (log_msg Warning ''driver open failed'' (log_msg Info ''open start'' s))"

definition dev_open_ok :: "int \<Rightarrow> int \<Rightarrow> int \<Rightarrow> js220 \<Rightarrow> js220" where
  "dev_open_ok hw fw fpga s =
     (let s1 = log_msg Info ''open start'' s;
          i = (info s1)\<lparr>version := Some (str_of_int (hw div 2 ^ 24), version_u32_to_str fw,
                                          version_u32_to_str fpga)\<rparr>;
          s2 = s1\<lparr>info := i\<rparr>;
          s3 = ui_publish_info ''settings/info'' i s2;
          s4 = driver_publish ''s/stats/ctrl'' (PInt 1) s3;
          s5 = driver_publish ''s/dbg/mode'' (PStr ''fpga_dev'') s4;
          s6 = s5\<lparr>driver_device_open := True\<rparr>
      in log_msg Info ''open %s done'' s6)"

text \<open>
  The cleanup loop of \<^verbatim>\<open>_close\<close>: the control topic of every signal is written 0. A topic
  that is None makes the driver raise, which ends the loop (the exception is caught and
  logged by \<^verbatim>\<open>_close\<close>); the result says whether the loop came to its end.
\<close>

fun ctrl_off :: "signal_info list \<Rightarrow> js220 \<Rightarrow> bool \<times> js220" where
  "ctrl_off [] s = (True, s)"
| "ctrl_off (sg # sgs) s =
     (case fst (sig_topics sg) of
        None \<Rightarrow> (False, s)
      | Some t \<Rightarrow> ctrl_off sgs (driver_publish t (PInt 0) s))"

text \<open>\<^verbatim>\<open>_close\<close>: nothing but a log record when the device is not open; else the teardown.\<close>

definition dev_close :: "js220 \<Rightarrow> js220" where
  "dev_close s =
     (if \<not> driver_device_open s then log_msg Info ''close %s when already closed'' s
      else
        (let s1 = log_msg Info ''close %s start'' s;
             s2 = ui_publish ''settings/state'' (PStr ''closing'') s1;
             s3 = (case ctrl_off (map snd SIGNALS) s2 of
                     (True, s') \<Rightarrow> driver_publish ''s/stats/ctrl'' (PInt 0) s'
                   | (False, s') \<Rightarrow> log_msg Info ''Exception during close cleanup: %s'' s');
             s4 = s3\<lparr>driver_device_open := False\<rparr>
         in log_msg Info ''close %s done'' s4))"

subsection \<open>The worker thread, seen from the control thread\<close>

text \<open>
  The worker runs \<^verbatim>\<open>_run\<close> concurrently. Its steps that the control thread can observe are
  taken as atomic events of a running thread \<open>t\<close>:
  \<^item> \<open>worker_open_failed\<close>: \<^verbatim>\<open>_open\<close> failed (it published the state \<^verbatim>\<open>'closing'\<close>), so
    \<^verbatim>\<open>_run\<close> returned 1 and the thread ended, still referenced by \<^verbatim>\<open>self._thread\<close>;
  \<^item> \<open>worker_opened\<close>: \<^verbatim>\<open>_open\<close> returned 0 and \<^verbatim>\<open>_run\<close> published the state \<^verbatim>\<open>'open'\<close>;
  \<^item> \<open>worker_stopped\<close>: the loop of \<^verbatim>\<open>_run\<close> ended (the quit flag, a close command, or a
    pending firmware update), \<^verbatim>\<open>_close\<close> ran, and the thread ended.
  A thread that is not running takes no step. The commands served in the loop and the
  firmware check touch neither the thread nor the state on the bus; they are the
  handlers of the sections below.
\<close>

definition worker_open_failed :: "nat \<Rightarrow> js220 \<Rightarrow> js220" where
  "worker_open_failed t s =
     (if t \<in> alive s then
        (let s1 = log_msg Info ''thread start'' s;
             s2 = dev_open_failed s1;
             s3 = log_msg Info ''thread exit due to open fail'' s2
         in s3\<lparr>alive := alive s3 - {t}\<rparr>)
      else s)"

definition worker_opened :: "nat \<Rightarrow> int \<Rightarrow> int \<Rightarrow> int \<Rightarrow> js220 \<Rightarrow> js220" where
  "worker_opened t hw fw fpga s =
     (if t \<in> alive s then
        (let s1 = log_msg Info ''thread start'' s;
             s2 = dev_open_ok hw fw fpga s1;
             s3 = ui_publish ''settings/state'' (PStr ''open'') s2
         in log_msg Info ''thread open complete'' s3)
      else s)"

definition worker_stopped :: "nat \<Rightarrow> js220 \<Rightarrow> js220" where
  "worker_stopped t s =
     (if t \<in> alive s then
        (let s1 = dev_close s;
             s2 = log_msg Info ''thread stop'' s1
         in s2\<lparr>alive := alive s2 - {t}\<rparr>)
      else s)"

subsection \<open>Threads\<close>

text \<open>
  \<^verbatim>\<open>threading.Thread(target=self._run)\<close> then \<^verbatim>\<open>start()\<close>: a new thread runs.
  \<^verbatim>\<open>t.join()\<close> returns once thread \<open>t\<close> has terminated. A worker that is still running
  when it is joined runs to its end during the join: \<^verbatim>\<open>_close_req\<close> has set the quit flag
  and queued the close command, so the worker leaves its loop and runs its teardown
  (\<open>worker_stopped\<close>) before the join returns. A worker whose \<^verbatim>\<open>_open\<close> ends during the
  join is the run in which that step of the worker comes before the close-request.
\<close>

definition thread_start :: "js220 \<Rightarrow> js220" where
  "thread_start s =
     s\<lparr>thread := Some (started s), alive := insert (started s) (alive s),
       started := Suc (started s), trace := trace s @ [ThreadStart (started s)]\<rparr>"

definition thread_join :: "nat \<Rightarrow> js220 \<Rightarrow> js220" where
  "thread_join t s =
     (let s1 = worker_stopped t s in s1\<lparr>trace := trace s1 @ [ThreadJoin t]\<rparr>)"

text \<open>The loop of \<^verbatim>\<open>_open_req\<close> that takes commands off the queue until it is empty.\<close>

fun drain :: "command list \<Rightarrow> command list" where
  "drain [] = []"
| "drain (c # cs) = drain cs"

subsection \<open>Open and close requests (control thread)\<close>

definition close_req :: "js220 \<Rightarrow> js220" where
  "close_req s =
     (let t = thread s; s0 = s\<lparr>thread := None\<rparr> in
      case t of
        None \<Rightarrow> s0
      | Some tid \<Rightarrow>
          (let s1 = log_msg Info ''closing'' s0;
               s2 = ui_publish ''settings/state'' (PStr ''closing'') s1;
               s3 = send_to_thread ''close'' None s2;
               s4 = s3\<lparr>quit := True\<rparr>;
               s5 = thread_join tid s4;
               s6 = ui_publish ''settings/state'' (PStr ''closed'') s5
           in log_msg Info ''closed'' s6))"

definition open_req :: "js220 \<Rightarrow> js220" where
  "open_req s =
     (let s1 = (if thread s \<noteq> None \<and> ui_query_state s = 3 then close_req s else s) in
      if thread s1 = None then
        (let s2 = log_msg Info ''open req start'' s1;
             s3 = s2\<lparr>queue := drain (queue s2)\<rparr>;
             s4 = ui_publish ''settings/state'' (PStr ''opening'') s3;
             s5 = s4\<lparr>quit := False\<rparr>;
             s6 = thread_start s5
         in log_msg Info ''open req done'' s6)
      else s1)"

definition on_setting_state_req :: "int \<Rightarrow> js220 \<Rightarrow> js220" where
  "on_setting_state_req v s = (if v = 0 then close_req s else open_req s)"

subsection \<open>Runs of the session\<close>

text \<open>
  A run interleaves the requests of the control thread with the steps of the worker;
  \<open>WorkerOpened\<close> carries the three version registers the worker read.
\<close>

datatype act =
    OpenReq | CloseReq | WorkerOpenFailed nat | WorkerOpened nat int int int | WorkerStopped nat

fun step :: "js220 \<Rightarrow> act \<Rightarrow> js220" where
  "step s OpenReq = open_req s"
| "step s CloseReq = close_req s"
| "step s (WorkerOpenFailed t) = worker_open_failed t s"
| "step s (WorkerOpened t hw fw fpga) = worker_opened t hw fw fpga s"
| "step s (WorkerStopped t) = worker_stopped t s"

definition run :: "js220 \<Rightarrow> act list \<Rightarrow> js220" where
  "run s acts = foldl step s acts"

text \<open>The instance after \<^verbatim>\<open>__init__\<close>, with the settings at their defaults.\<close>

definition js220_init :: "string \<Rightarrow> string \<Rightarrow> string \<Rightarrow> js220" where
  "js220_init tname uid serial =
     \<lparr>topic_name = tname, unique_id = uid,
      info = \<lparr>vendor = ''Jetperch LLC'', model = ''JS220'', version = None, serial_number = serial\<rparr>,
      driver_device_open = False, thread = None, quit = False, target_power_app = False,
      queue = [], statistics_offsets = None, state = 0, target_power = True,
      current_range = - 1, firmware_channel = ''beta'', alive = {}, started = 0, trace = []\<rparr>"

subsection \<open>Settings (bus callback and worker handler)\<close>

definition on_settings :: "string \<Rightarrow> pyval \<Rightarrow> js220 \<Rightarrow> js220" where
  "on_settings topic v s =
     (if thread s = None then s
      else
        (let t = topic_name s @ ''/settings/'' in
         if \<not> startswith topic t then
           (if topic \<noteq> butlast t then log_msg Warning ''Invalid settings topic %s'' s else s)
         else send_to_thread ''settings'' (Some (drop (length t) topic, v)) s))"

definition on_target_power_app :: "pyval \<Rightarrow> js220 \<Rightarrow> js220" where
  "on_target_power_app v s =
     send_to_thread ''current_range_update'' None (s\<lparr>target_power_app := py_bool v\<rparr>)"

definition current_range_update :: "js220 \<Rightarrow> js220" where
  "current_range_update s =
     (if target_power_app s \<and> target_power s then
        (if current_range s = - 1 then
           driver_publish ''s/i/range/mode'' (PStr ''auto'') (log_msg Info ''current_range auto'' s)
         else
           driver_publish ''s/i/range/mode'' (PStr ''manual'')
             (driver_publish ''s/i/range/select'' (PInt (current_range s))
               (log_msg Info ''current_range manual %s'' s)))
      else
        driver_publish ''s/i/range/mode'' (PStr ''off'') (log_msg Info ''current_range off'' s))"

text \<open>\<^verbatim>\<open>value == -1\<close>: no bool equals \<open>-1\<close>, and neither does a value that is no number.\<close>

definition is_minus_one :: "pyval \<Rightarrow> bool" where
  "is_minus_one v = (num_of v = Some (- 1))"

definition PASS_TOPICS :: "string list" where
  "PASS_TOPICS = [''info'', ''state'', ''state_req'', ''out'', ''enable'',
                  ''sources'', ''sources/1'', ''sources/1/info'', ''sources/1/name'',
                  ''signals'', ''firmware_available'', ''firmware_channel'']"

definition run_cmd_settings :: "string \<Rightarrow> pyval \<Rightarrow> js220 \<Rightarrow> error + js220" where
  "run_cmd_settings topic v s0 =
     (let s = log_msg Info ''setting(%s): %s <= %s'' s0 in
      if endswith topic ''/enable'' then
        (case list_get (split_on CHR ''/'' topic) 1 of
           Inl e \<Rightarrow> Inl e
         | Inr signal_id \<Rightarrow>
             (case dict_get SIGNALS signal_id of
                Inl e \<Rightarrow> Inl e
              | Inr sg \<Rightarrow>
                  (case fst (sig_topics sg) of
                     Some t \<Rightarrow> Inr (driver_publish t (PBool (py_bool v)) s)
                   | None \<Rightarrow> Inr (log_msg Warning ''invalid enable: %s'' s))))
      else if startswith topic ''out/'' then
        (case dict_get GPO_BIT (drop 4 topic) of
           Inl e \<Rightarrow> Inl e
         | Inr b \<Rightarrow>
             Inr (driver_publish (if py_bool v then ''s/gpo/+/!set'' else ''s/gpo/+/!clr'') (PInt b) s))
      else if topic = ''signal_frequency'' then
        (case py_int v of
           Inl e \<Rightarrow> Inl e
         | Inr i \<Rightarrow> Inr (driver_publish ''h/fs'' (PInt i) s))
      else if topic = ''statistics_frequency'' then
        (case py_floordiv 1000000 v of
           Inl e \<Rightarrow> Inl e
         | Inr scnt \<Rightarrow> Inr (driver_publish ''s/stats/scnt'' (PInt scnt) s))
      else if topic = ''target_power'' then Inr (current_range_update s)
      else if topic = ''current_range'' then Inr (current_range_update s)
      else if topic = ''current_range_limits'' then
        (case (if v = PNone then Inr (PInt 0, PInt 5) else unpack2 v) of
           Inl e \<Rightarrow> Inl e
         | Inr (a, b) \<Rightarrow>
             (case clamp05 a of
                Inl e \<Rightarrow> Inl e
              | Inr i_min \<Rightarrow>
                  (case clamp05 b of
                     Inl e \<Rightarrow> Inl e
                   | Inr i_max \<Rightarrow>
                       (let sw = (case (num_of i_min, num_of i_max) of
                                    (Some x, Some y) \<Rightarrow> x > y | _ \<Rightarrow> False);
                            lo = (if sw then i_max else i_min);
                            hi = (if sw then i_min else i_max)
                        in Inr (driver_publish ''s/i/range/max'' hi
                                 (driver_publish ''s/i/range/min'' lo s))))))
      else if topic = ''voltage_range'' then
        (if is_minus_one v then Inr (driver_publish ''s/v/range/mode'' (PStr ''auto'') s)
         else Inr (driver_publish ''s/v/range/select'' v
                    (driver_publish ''s/v/range/mode'' (PStr ''manual'') s)))
      else if topic = ''trigger_dir'' then Inr (driver_publish ''c/trigger/dir'' v s)
      else if topic = ''gpio_voltage'' then Inr (driver_publish ''c/gpio/vref'' v s)
      else if topic = ''name'' then Inr (ui_publish ''settings/sources/1/name'' v s)
      else if topic \<in> set PASS_TOPICS then Inr s
      else if startswith topic ''signals/'' then Inr s
      else Inr (log_msg Warning ''Unsupported topic %s'' s))"

text \<open>\<^verbatim>\<open>_run_cmd\<close>; \<^verbatim>\<open>self._run_cmd_settings(*args)\<close> cannot unpack None.\<close>

definition run_cmd :: "command \<Rightarrow> js220 \<Rightarrow> error + js220" where
  "run_cmd c s =
     (case c of (cmd, args) \<Rightarrow>
        if cmd = ''settings'' then
          (case args of None \<Rightarrow> Inl TypeError | Some (topic, v) \<Rightarrow> run_cmd_settings topic v s)
        else if cmd = ''current_range_update'' then Inr (current_range_update s)
        else if cmd = ''close'' then Inr s
        else Inr (log_msg Warning ''Unhandled cmd: %s'' s))"

subsection \<open>Statistics\<close>

text \<open>
  The fields of a statistics value that \<^verbatim>\<open>_on_stats\<close> touches:
  \<^verbatim>\<open>value['time']['accum_samples']['value']\<close> (a list of sample indices),
  \<^verbatim>\<open>value['accumulators']['charge']['value']\<close>, the same for energy, and
  \<^verbatim>\<open>value['source']\<close> (absent until set; it holds the unique id). Every other field is in
  the record's extension and stays as it is. The accumulators are numbers; they are
  modelled as reals, with exact subtraction. The stored offsets are the list
  \<^verbatim>\<open>[accum_sample_start, charge, energy]\<close>.
\<close>

record stats =
  accum_samples :: "int list"
  charge :: real
  energy :: real
  source :: "string option"

definition on_stats ::
  "'a stats_scheme \<Rightarrow> js220 \<Rightarrow> error + ((string \<times> 'a stats_scheme) \<times> js220)" where
  "on_stats v s =
     (case (case statistics_offsets s of
              None \<Rightarrow>
                (case list_last (accum_samples v) of
                   Inl e \<Rightarrow> Inl e
                 | Inr accum_sample_start \<Rightarrow>
                     Inr (s\<lparr>statistics_offsets := Some (accum_sample_start, charge v, energy v)\<rparr>))
            | Some _ \<Rightarrow> Inr s) of
        Inl e \<Rightarrow> Inl e
      | Inr s1 \<Rightarrow>
          (case statistics_offsets s1 of
             None \<Rightarrow> Inl TypeError
           | Some (accum_sample_start, c, e) \<Rightarrow>
               (case list_set0 (accum_samples v) accum_sample_start of
                  Inl err \<Rightarrow> Inl err
                | Inr xs \<Rightarrow>
                    Inr ((''events/statistics/!data'',
                          v\<lparr>accum_samples := xs, charge := charge v - c,
                            energy := energy v - e, source := Some (unique_id s1)\<rparr>), s1))))"

text \<open>The callback applied to the samples in their order of arrival; the first failure ends it.\<close>

fun on_stats_all ::
  "'a stats_scheme list \<Rightarrow> js220 \<Rightarrow> error + ((string \<times> 'a stats_scheme) list \<times> js220)" where
  "on_stats_all [] s = Inr ([], s)"
| "on_stats_all (v # vs) s =
     (case on_stats v s of
        Inl e \<Rightarrow> Inl e
      | Inr (out, s1) \<Rightarrow>
          (case on_stats_all vs s1 of
             Inl e \<Rightarrow> Inl e
           | Inr (outs, s2) \<Rightarrow> Inr (out # outs, s2)))"

definition on_action_accum_clear ::
  "string \<Rightarrow> (int \<times> real \<times> real) option \<Rightarrow> js220
     \<Rightarrow> (string \<times> (int \<times> real \<times> real) option) \<times> js220" where
  "on_action_accum_clear topic v s =
     (let prev_value = statistics_offsets s;
          s1 = (case v of
                  None \<Rightarrow> s\<lparr>statistics_offsets := None\<rparr>
                | Some l \<Rightarrow> s\<lparr>statistics_offsets := Some l\<rparr>)
      in ((topic, prev_value), s1))"

subsection \<open>Signal forwarding\<close>

text \<open>
  A raw signal event of the driver and the event forwarded to the application. The sample
  data is of no concern here and has any type.
\<close>

record 'd raw_signal =
  sample_id :: int
  sample_rate :: int
  decimate_factor :: int
  utc :: int
  data :: 'd

record 'd signal_fwd =
  fwd_source :: device_info
  fwd_sample_id :: int
  fwd_sample_freq :: int
  fwd_utc :: int
  fwd_field :: string
  fwd_data :: 'd
  fwd_dtype :: string
  fwd_units :: string
  origin_sample_id :: int
  orig_sample_freq :: int
  orig_decimate_factor :: int

definition py_intdiv :: "int \<Rightarrow> int \<Rightarrow> error + int" where
  "py_intdiv a b = (if b = 0 then Inl ZeroDivisionError else Inr (a div b))"

text \<open>
  \<^verbatim>\<open>_signal_forward_factory\<close>: the lookup in \<^verbatim>\<open>_SIGNALS\<close> happens when the callback is made,
  the callback reads \<^verbatim>\<open>self._info\<close> when it is called, and returns what it publishes.
\<close>

definition signal_forward_factory ::
  "string \<Rightarrow> string \<Rightarrow> error + (js220 \<Rightarrow> 'd raw_signal \<Rightarrow> error + (string \<times> 'd signal_fwd))" where
  "signal_forward_factory signal_id utopic =
     (case dict_get SIGNALS signal_id of
        Inl e \<Rightarrow> Inl e
      | Inr signal_info \<Rightarrow>
          Inr (\<lambda>s v.
            (case py_intdiv (sample_id v) (decimate_factor v) of
               Inl e \<Rightarrow> Inl e
             | Inr sid \<Rightarrow>
                 (case py_intdiv (sample_rate v) (decimate_factor v) of
                    Inl e \<Rightarrow> Inl e
                  | Inr freq \<Rightarrow>
                      Inr (utopic,
                           \<lparr>fwd_source = info s, fwd_sample_id = sid, fwd_sample_freq = freq,
                            fwd_utc = utc v, fwd_field = sig_name signal_info,
                            fwd_data = data v, fwd_dtype = sig_dtype signal_info,
                            fwd_units = sig_units signal_info,
                            origin_sample_id = sample_id v,
                            orig_sample_freq = sample_rate v,
                            orig_decimate_factor = decimate_factor v\<rparr>)))))"

subsection \<open>Firmware freshness\<close>

text \<open>
  The release service and the driver are outside this repository; the check takes them as
  an environment: \<^verbatim>\<open>release.release_get\<close>, \<^verbatim>\<open>release.release_to_segments\<close> (a dict from
  subtype to a segment with its \<^verbatim>\<open>version\<close>), the two subtype constants,
  \<^verbatim>\<open>program.version_to_str\<close> and \<^verbatim>\<open>_driver_query\<close>. Each call may raise.
\<close>

record ('img) fw_env =
  release_get :: "string \<Rightarrow> error + 'img"
  release_to_segments :: "'img \<Rightarrow> error + (nat \<times> int) list"
  SUBTYPE_CTRL_APP :: nat
  SUBTYPE_SENSOR_FPGA :: nat
  version_to_str :: "int \<Rightarrow> string"
  driver_query :: "string \<Rightarrow> error + int"

definition release_segments :: "'img fw_env \<Rightarrow> js220 \<Rightarrow> error + (int \<times> int)" where
  "release_segments env s =
     (case release_get env (firmware_channel s) of
        Inl e \<Rightarrow> Inl e
      | Inr img \<Rightarrow>
          (case release_to_segments env img of
             Inl e \<Rightarrow> Inl e
           | Inr segments \<Rightarrow>
               (case dict_get segments (SUBTYPE_CTRL_APP env) of
                  Inl e \<Rightarrow> Inl e
                | Inr ctrl_app \<Rightarrow>
                    (case dict_get segments (SUBTYPE_SENSOR_FPGA env) of
                       Inl e \<Rightarrow> Inl e
                     | Inr fpga \<Rightarrow> Inr (ctrl_app, fpga)))))"

definition is_firmware_update_available ::
  "'img fw_env \<Rightarrow> js220 \<Rightarrow> error + ((string \<times> string list) list option \<times> js220)" where
  "is_firmware_update_available env s =
     (case release_segments env s of
        Inl _ \<Rightarrow>
          Inr (None, log_msg Info ''firmware_update_available: Could not parse firmware image'' s)
      | Inr (ctrl_app, fpga) \<Rightarrow>
          (case driver_query env ''c/fw/version'' of
             Inl e \<Rightarrow> Inl e
           | Inr ctrl_app_now \<Rightarrow>
               (case driver_query env ''s/fpga/version'' of
                  Inl e \<Rightarrow> Inl e
                | Inr fpga_now \<Rightarrow>
                    if ctrl_app_now \<ge> ctrl_app \<and> fpga_now \<ge> fpga then
                      Inr (None, log_msg Info ''firmware_update_available %s: up to date'' s)
                    else
                      (let v = version_to_str env;
                           rv = [(''ctrl_app'', [v ctrl_app_now, v ctrl_app]),
                                 (''fpga'', [v fpga_now, v fpga])]
                       in Inr (Some rv, log_msg Info ''firmware_update_available %s: %s'' s)))))"

section \<open>Time mapping\<close>

text \<open>
  Modelled from the spec: the state of a \<^verbatim>\<open>TimeMap\<close> (\<^verbatim>\<open>time_map.py\<close> is not among the
  sources), \<open>(trel_offset, anchor_pixel, anchor_time, pixels_per_unit_time)\<close>, and the
  default configuration.
\<close>

record time_map =
  trel_offset :: int
  anchor_pixel :: int
  anchor_time :: int
  pixels_per_time :: real

definition time_map_default :: time_map where
  "time_map_default = \<lparr>trel_offset = 0, anchor_pixel = 0, anchor_time = 0, pixels_per_time = 1\<rparr>"

text \<open>
  Modelled from the spec: \<^verbatim>\<open>time_map.py\<close> is not among the sources (only its test is).
  \<open>update\<close> replaces the anchor and the scale and leaves \<open>trel_offset\<close> alone; a scale that
  is not strictly positive is rejected.
\<close>

definition update :: "int \<Rightarrow> int \<Rightarrow> real \<Rightarrow> time_map \<Rightarrow> error + time_map" where
  "update pixel t scale tm =
     (if scale \<le> 0 then Inl ValueError
      else Inr (tm\<lparr>anchor_pixel := pixel, anchor_time := t, pixels_per_time := scale\<rparr>))"

text \<open>
  Modelled from the spec: \<^verbatim>\<open>time64_to_pixel\<close> and \<^verbatim>\<open>pixel_to_time64\<close> of the absent
  \<^verbatim>\<open>time_map.py\<close>, "inverse affine maps through the anchor and scale" between 64-bit
  fixed-point time and integer pixel coordinates. The spec calls both coordinates
  integers, so each map rounds its affine image to the nearest integer. The scale, a float
  in the program, is an exact real here.
\<close>

definition time64_to_pixel :: "time_map \<Rightarrow> int \<Rightarrow> int" where
  "time64_to_pixel tm t =
     anchor_pixel tm + round (of_int (t - anchor_time tm) * pixels_per_time tm)"

definition pixel_to_time64 :: "time_map \<Rightarrow> int \<Rightarrow> int" where
  "pixel_to_time64 tm p =
     anchor_time tm + round (of_int (p - anchor_pixel tm) / pixels_per_time tm)"

section \<open>Observations on a trace\<close>

text \<open>The register writes handed to the driver, in order.\<close>

fun driver_pubs :: "event list \<Rightarrow> (string \<times> pyval) list" where
  "driver_pubs [] = []"
| "driver_pubs (DriverPublish t v # es) = (t, v) # driver_pubs es"
| "driver_pubs (e # es) = driver_pubs es"

text \<open>The values published on the application bus, in order.\<close>

fun ui_pubs :: "event list \<Rightarrow> (string \<times> pyval) list" where
  "ui_pubs [] = []"
| "ui_pubs (UiPublish t v # es) = (t, v) # ui_pubs es"
| "ui_pubs (e # es) = ui_pubs es"

text \<open>The topics on which the settings handler acts, by name.\<close>

definition OPERATIONAL_TOPICS :: "string list" where
  "OPERATIONAL_TOPICS = [''signal_frequency'', ''statistics_frequency'', ''target_power'',
     ''current_range'', ''current_range_limits'', ''voltage_range'', ''trigger_dir'',
     ''gpio_voltage'', ''name'']"

text \<open>What holds of the session between any two steps: only the referenced thread can be running.\<close>

definition session_inv :: "js220 \<Rightarrow> bool" where
  "session_inv s \<longleftrightarrow> alive s \<subseteq> set_option (thread s)"

text \<open>
  The published value of a sample \<open>v\<close> that arrives after a clear, the samples \<open>ms\<close> and
  a restore with the value the clear returned; and the published value of \<open>v\<close> after
  the samples \<open>ms\<close> alone.
\<close>

definition clear_restore_then ::
  "string \<Rightarrow> 'a stats_scheme list \<Rightarrow> 'a stats_scheme \<Rightarrow> js220 \<Rightarrow> error + (string \<times> 'a stats_scheme)" where
  "clear_restore_then topic ms v s =
     (case on_action_accum_clear topic None s of
        ((_, prev), s1) \<Rightarrow>
          (case on_stats_all ms s1 of
             Inl e \<Rightarrow> Inl e
           | Inr (_, s2) \<Rightarrow>
               (case on_action_accum_clear topic prev s2 of
                  (_, s3) \<Rightarrow>
                    (case on_stats v s3 of Inl e \<Rightarrow> Inl e | Inr (out, _) \<Rightarrow> Inr out))))"

definition never_cleared_then ::
  "'a stats_scheme list \<Rightarrow> 'a stats_scheme \<Rightarrow> js220 \<Rightarrow> error + (string \<times> 'a stats_scheme)" where
  "never_cleared_then ms v s =
     (case on_stats_all ms s of
        Inl e \<Rightarrow> Inl e
      | Inr (_, s0) \<Rightarrow> (case on_stats v s0 of Inl e \<Rightarrow> Inl e | Inr (out, _) \<Rightarrow> Inr out))"

section \<open>Helper lemmas\<close>

lemma driver_pubs_append: "driver_pubs (xs @ ys) = driver_pubs xs @ driver_pubs ys"
  by (induction xs rule: driver_pubs.induct) simp_all

lemma ui_pubs_append: "ui_pubs (xs @ ys) = ui_pubs xs @ ui_pubs ys"
  by (induction xs rule: ui_pubs.induct) simp_all

lemma startswith_iff: "startswith s p \<longleftrightarrow> (\<exists>r. s = p @ r)"
  by (induction s p rule: startswith.induct) auto

section \<open>Current-range policy\<close>

text \<open>
  C2. For every combination of the application-level target-power flag, the device's own
  target_power setting and the configured current_range, \<open>current_range_update\<close> hands the
  driver exactly these register writes: mode \<open>auto\<close> on \<open>s/i/range/mode\<close> when both flags
  are true and the range is the sentinel \<open>-1\<close>; the range on \<open>s/i/range/select\<close> followed by
  mode \<open>manual\<close> when both flags are true and the range is not \<open>-1\<close>; mode \<open>off\<close> whenever
  the two flags are not both true, whatever the range. Nothing but the trace changes.
\<close>

theorem current_range_policy:
  "driver_pubs (trace (current_range_update s)) =
     driver_pubs (trace s) @
       (if target_power_app s \<and> target_power s then
          (if current_range s = - 1 then [(''s/i/range/mode'', PStr ''auto'')]
           else [(''s/i/range/select'', PInt (current_range s)),
                 (''s/i/range/mode'', PStr ''manual'')])
        else [(''s/i/range/mode'', PStr ''off'')])
   \<and> current_range_update s = s\<lparr>trace := trace (current_range_update s)\<rparr>"
  by (simp add: current_range_update_def driver_publish_def log_msg_def driver_pubs_append)

section \<open>Frequency settings\<close>

text \<open>
  C5, as stated, fails: the claim has the signal_frequency setting mapped to
  \<open>1000000 / frequency\<close> like the statistics frequency. At the setting
  \<open>signal_frequency = 2\<close> the handler writes the frequency itself, 2, to \<open>h/fs\<close>; it writes
  no 500000 and nothing to a decimation register.
\<close>

theorem signal_frequency_not_divided:
  "run_cmd_settings ''signal_frequency'' (PInt 2) (js220_init ''JS220-000123'' ''JS220-000123'' ''000123'')
     = Inr ((js220_init ''JS220-000123'' ''JS220-000123'' ''000123'')
            \<lparr>trace := [Log Info ''setting(%s): %s <= %s'', DriverPublish ''h/fs'' (PInt 2)]\<rparr>)
   \<and> PInt 2 \<noteq> PInt (1000000 div 2)"
  by (simp add: run_cmd_settings_def endswith_def js220_init_def log_msg_def driver_publish_def)

text \<open>
  C5, amended. For every nonzero integer frequency \<open>f\<close>, the setting
  \<open>statistics_frequency = f\<close> writes \<open>1000000 div f\<close> (floor division) to \<open>s/stats/scnt\<close>, so
  2 Hz gives 500000; the setting \<open>signal_frequency = f\<close> writes \<open>f\<close> itself to \<open>h/fs\<close>.
  Either handler does nothing else but log the setting.
\<close>

theorem frequency_settings:
  "f \<noteq> 0 \<Longrightarrow>
     run_cmd_settings ''statistics_frequency'' (PInt f) s
       = Inr (driver_publish ''s/stats/scnt'' (PInt (1000000 div f))
               (log_msg Info ''setting(%s): %s <= %s'' s))
     \<and> run_cmd_settings ''signal_frequency'' (PInt f) s
       = Inr (driver_publish ''h/fs'' (PInt f) (log_msg Info ''setting(%s): %s <= %s'' s))"
  by (simp add: run_cmd_settings_def endswith_def)

theorem frequency_settings_witness:
  "run_cmd_settings ''statistics_frequency'' (PInt 2) (js220_init ''d'' ''d'' ''1'')
     = Inr ((js220_init ''d'' ''d'' ''1'')
            \<lparr>trace := [Log Info ''setting(%s): %s <= %s'',
                       DriverPublish ''s/stats/scnt'' (PInt 500000)]\<rparr>)
   \<and> run_cmd_settings ''signal_frequency'' (PInt 2) (js220_init ''d'' ''d'' ''1'')
     = Inr ((js220_init ''d'' ''d'' ''1'')
            \<lparr>trace := [Log Info ''setting(%s): %s <= %s'', DriverPublish ''h/fs'' (PInt 2)]\<rparr>)"
  using frequency_settings [of 2 "js220_init ''d'' ''d'' ''1''"]
  by (simp add: js220_init_def log_msg_def driver_publish_def)

section \<open>Topics the settings handler does not recognize\<close>

text \<open>
  The part of the handler that does ignore a topic: a topic of \<open>PASS_TOPICS\<close>, a topic
  under \<open>signals/\<close> and any other topic, provided it neither ends in \<open>/enable\<close> nor
  starts with \<open>out/\<close> nor is one of the operational names, hands nothing to the driver and
  raises nothing.
\<close>

lemma unrecognized_topic_ignored:
  assumes "\<not> endswith topic ''/enable''" and "\<not> startswith topic ''out/''"
    and "topic \<notin> set OPERATIONAL_TOPICS"
  shows "\<exists>s'. run_cmd_settings topic v s = Inr s'
           \<and> driver_pubs (trace s') = driver_pubs (trace s) \<and> ui_pubs (trace s') = ui_pubs (trace s)
           \<and> s' = s\<lparr>trace := trace s'\<rparr>
           \<and> (topic \<notin> set PASS_TOPICS \<and> \<not> startswith topic ''signals/''
                \<longrightarrow> last (trace s') = Log Warning ''Unsupported topic %s'')"
  using assms
  by (auto simp add: run_cmd_settings_def OPERATIONAL_TOPICS_def log_msg_def Let_def
      driver_pubs_append ui_pubs_append)

text \<open>
  C8. The claim: a settings topic that is none of the recognized operational topics is
  ignored (an unknown or malformed one after a warning), with no driver publish and no
  exception. The handler tests \<open>endswith '/enable'\<close> and \<open>startswith 'out/'\<close> first and
  then indexes \<^verbatim>\<open>_SIGNALS\<close> and \<^verbatim>\<open>_GPO_BIT\<close> with a piece of the topic: for the
  unknown topics \<open>foo/enable\<close> and \<open>out/2\<close> the lookup raises KeyError, whatever the value
  and the state, and neither the warning \<open>invalid enable\<close> nor \<open>Unsupported topic\<close> is
  reached.
\<close>

theorem unknown_topic_raises:
  "run_cmd_settings ''foo/enable'' v s = Inl KeyError
   \<and> run_cmd_settings ''out/2'' v s = Inl KeyError"
  by (simp add: run_cmd_settings_def endswith_def list_get_def dict_get_def SIGNALS_def GPO_BIT_def)

section \<open>The settings callback\<close>

text \<open>
  C10. When no worker thread exists, the settings callback returns with the session as it
  was: nothing is enqueued. When a worker exists, a topic that is the device's settings
  prefix \<open>topic_name/settings/\<close> followed by \<open>rest\<close> enqueues the command
  \<open>(settings, (rest, value))\<close> at the end of the queue and changes nothing else; a topic
  that does not start with the prefix leaves the queue as it was.
\<close>

theorem on_settings_enqueue:
  "(thread s = None \<longrightarrow> on_settings topic v s = s)
   \<and> (thread s \<noteq> None \<longrightarrow>
        on_settings (topic_name s @ ''/settings/'' @ rest) v s
          = s\<lparr>queue := queue s @ [(''settings'', Some (rest, v))]\<rparr>)
   \<and> (thread s \<noteq> None \<and> \<not> (\<exists>r. topic = topic_name s @ ''/settings/'' @ r) \<longrightarrow>
        queue (on_settings topic v s) = queue s)"
  by (auto simp add: on_settings_def Let_def send_to_thread_def startswith_iff log_msg_def)

theorem on_settings_enqueue_witness:
  "on_settings ''dev/settings/target_power'' (PBool True) (js220_init ''dev'' ''dev'' ''1'') 
     = js220_init ''dev'' ''dev'' ''1''
   \<and> queue (on_settings ''dev/settings/target_power'' (PBool True)
             ((js220_init ''dev'' ''dev'' ''1'')\<lparr>thread := Some 0\<rparr>))
     = [(''settings'', Some (''target_power'', PBool True))]
   \<and> queue (on_settings ''other/settings/target_power'' (PBool True)
             ((js220_init ''dev'' ''dev'' ''1'')\<lparr>thread := Some 0\<rparr>)) = []"
  using on_settings_enqueue [of "js220_init ''dev'' ''dev'' ''1''" "''dev/settings/target_power''"
      "PBool True" "''target_power''"]
    on_settings_enqueue [of "(js220_init ''dev'' ''dev'' ''1'')\<lparr>thread := Some 0\<rparr>"
      "''other/settings/target_power''" "PBool True" "''target_power''"]
  by (simp add: js220_init_def)

section \<open>Statistics normalization\<close>

lemma on_stats_with_baseline:
  assumes "statistics_offsets s = Some (a, c, e)" and "accum_samples v \<noteq> []"
  shows "on_stats v s
           = Inr ((''events/statistics/!data'',
                   v\<lparr>accum_samples := a # tl (accum_samples v), charge := charge v - c,
                     energy := energy v - e, source := Some (unique_id s)\<rparr>), s)"
  using assms by (auto simp add: on_stats_def list_set0_def split: list.splits)

lemma on_stats_all_with_baseline:
  assumes "statistics_offsets s = Some (a, c, e)" and "\<forall>v \<in> set vs. accum_samples v \<noteq> []"
  shows "on_stats_all vs s
           = Inr (map (\<lambda>v. (''events/statistics/!data'',
                             v\<lparr>accum_samples := a # tl (accum_samples v), charge := charge v - c,
                               energy := energy v - e, source := Some (unique_id s)\<rparr>)) vs, s)"
  using assms by (induction vs) (simp_all add: on_stats_with_baseline)

lemma on_stats_first:
  assumes "statistics_offsets s = None" and "accum_samples v \<noteq> []"
  shows "on_stats v s
           = Inr ((''events/statistics/!data'',
                   v\<lparr>accum_samples := last (accum_samples v) # tl (accum_samples v),
                     charge := charge v - charge v, energy := energy v - energy v,
                     source := Some (unique_id s)\<rparr>),
                  s\<lparr>statistics_offsets := Some (last (accum_samples v), charge v, energy v)\<rparr>)"
  using assms
  by (auto simp add: on_stats_def list_set0_def list_last_def split: list.splits)

text \<open>
  C3. Let the stored baseline be null and let the samples \<open>v # vs\<close> arrive, each with a
  non-empty list of accumulation sample indices (the driver delivers the pair start, end).
  Then no callback fails; the baseline stored afterwards is taken from the first sample
  \<open>v\<close>: the last index of its accumulation range, its charge and its energy; every sample,
  the first included, is republished on \<open>events/statistics/!data\<close> with its first
  accumulation index replaced by the baseline index, the baseline charge and energy
  subtracted from its charge and energy, and the device's unique id as its source; so the
  first republished sample has charge 0 and energy 0.
\<close>

theorem stats_normalization:
  assumes "statistics_offsets s = None" and "\<forall>x \<in> set (v # vs). accum_samples x \<noteq> []"
  shows "\<exists>outs.
          on_stats_all (v # vs) s
            = Inr (outs, s\<lparr>statistics_offsets := Some (last (accum_samples v), charge v, energy v)\<rparr>)
          \<and> map fst outs = replicate (Suc (length vs)) ''events/statistics/!data''
          \<and> map snd outs
              = map (\<lambda>x. x\<lparr>accum_samples := last (accum_samples v) # tl (accum_samples x),
                           charge := charge x - charge v,
                           energy := energy x - energy v,
                           source := Some (unique_id s)\<rparr>) (v # vs)
          \<and> charge (snd (hd outs)) = 0 \<and> energy (snd (hd outs)) = 0"
proof -
  let ?a = "last (accum_samples v)"
  let ?s1 = "s\<lparr>statistics_offsets := Some (?a, charge v, energy v)\<rparr>"
  have first: "on_stats v s
      = Inr ((''events/statistics/!data'',
              v\<lparr>accum_samples := ?a # tl (accum_samples v), charge := charge v - charge v,
                energy := energy v - energy v, source := Some (unique_id s)\<rparr>), ?s1)"
    using assms by (simp add: on_stats_first)
  have rest: "on_stats_all vs ?s1
      = Inr (map (\<lambda>x. (''events/statistics/!data'',
                        x\<lparr>accum_samples := ?a # tl (accum_samples x), charge := charge x - charge v,
                          energy := energy x - energy v, source := Some (unique_id ?s1)\<rparr>)) vs, ?s1)"
    using assms(2) by (intro on_stats_all_with_baseline) simp_all
  show ?thesis
    by (simp add: first rest comp_def map_replicate_const)
qed

theorem stats_normalization_witness:
  "\<exists>outs.
     on_stats_all
       [\<lparr>accum_samples = [0, 1000], charge = 5 / 2, energy = 1, source = None\<rparr>,
        \<lparr>accum_samples = [1000, 2000], charge = 4, energy = 3, source = None\<rparr>]
       (js220_init ''dev'' ''JS220-1'' ''1'')
       = Inr (outs, (js220_init ''dev'' ''JS220-1'' ''1'')\<lparr>statistics_offsets := Some (1000, 5 / 2, 1)\<rparr>)
     \<and> map snd outs
         = [\<lparr>accum_samples = [1000, 1000], charge = 0, energy = 0, source = Some ''JS220-1''\<rparr>,
            \<lparr>accum_samples = [1000, 2000], charge = 3 / 2, energy = 2, source = Some ''JS220-1''\<rparr>]"
  using stats_normalization [of "js220_init ''dev'' ''JS220-1'' ''1''"
      "\<lparr>accum_samples = [0, 1000], charge = 5 / 2, energy = 1, source = None\<rparr>"
      "[\<lparr>accum_samples = [1000, 2000], charge = 4, energy = 3, source = None\<rparr>]"]
  by (auto simp add: js220_init_def)

section \<open>Signal forwarding\<close>

text \<open>
  C6. For every signal declared in \<open>SIGNALS\<close> and every raw event whose decimation factor
  is not zero, the callback made by the factory publishes, on the topic it was made for,
  an event whose sample index and sample rate are the raw ones divided (floor division) by
  the event's decimation factor, whose origin fields hold the raw sample index, sample
  rate and decimation factor unchanged, whose UTC and data are the raw ones, and which
  carries the device descriptor and the name, units and dtype of the signal's descriptor.
\<close>

theorem signal_forward:
  assumes "map_of SIGNALS signal_id = Some sg" and "decimate_factor v \<noteq> 0"
  shows "\<exists>fn. signal_forward_factory signal_id utopic = Inr fn \<and>
           fn s v = Inr (utopic,
             \<lparr>fwd_source = info s,
              fwd_sample_id = sample_id v div decimate_factor v,
              fwd_sample_freq = sample_rate v div decimate_factor v,
              fwd_utc = utc v, fwd_field = sig_name sg, fwd_data = data v,
              fwd_dtype = sig_dtype sg, fwd_units = sig_units sg,
              origin_sample_id = sample_id v, orig_sample_freq = sample_rate v,
              orig_decimate_factor = decimate_factor v\<rparr>)"
  using assms by (simp add: signal_forward_factory_def dict_get_def py_intdiv_def)

theorem signal_forward_witness:
  "\<exists>fn. signal_forward_factory ''i'' ''dev/events/signals/i/!data'' = Inr fn \<and>
     fn (js220_init ''dev'' ''dev'' ''1'')
        \<lparr>sample_id = 2000, sample_rate = 1000000, decimate_factor = 2, utc = 7, data = [1::int, 2]\<rparr>
       = Inr (''dev/events/signals/i/!data'',
              \<lparr>fwd_source = \<lparr>vendor = ''Jetperch LLC'', model = ''JS220'', version = None,
                              serial_number = ''1''\<rparr>,
               fwd_sample_id = 1000, fwd_sample_freq = 500000, fwd_utc = 7,
               fwd_field = ''current'', fwd_data = [1, 2], fwd_dtype = ''f32'', fwd_units = ''A'',
               origin_sample_id = 2000, orig_sample_freq = 1000000, orig_decimate_factor = 2\<rparr>)"
  using signal_forward [of "''i''"
      "\<lparr>sig_name = ''current'', sig_dtype = ''f32'', sig_units = ''A'', sig_default = True,
        sig_topics = (Some ''s/i/ctrl'', ''s/i/!data'')\<rparr>"
      "\<lparr>sample_id = 2000, sample_rate = 1000000, decimate_factor = 2, utc = 7, data = [1::int, 2]\<rparr>"
      "''dev/events/signals/i/!data''" "js220_init ''dev'' ''dev'' ''1''"]
  by (simp add: SIGNALS_def js220_init_def)

section \<open>Time mapping round trip\<close>

lemma round_scaled_back:
  fixes k :: real and d :: int
  assumes "1 \<le> k"
  shows "round (of_int (round (of_int d * k)) / k) = d"
proof (cases "k = 1")
  case True
  then show ?thesis by simp
next
  case False
  with assms have k: "1 < k" by simp
  let ?p = "round (of_int d * k)"
  have "\<bar>of_int ?p - of_int d * k\<bar> \<le> 1 / 2"
    by (rule of_int_round_abs_le)
  moreover have "of_int ?p / k - of_int d = (of_int ?p - of_int d * k) / k"
    using k by (simp add: field_simps)
  ultimately have "\<bar>of_int ?p / k - of_int d\<bar> \<le> 1 / (2 * k)"
    using k by (simp add: abs_divide divide_right_mono field_simps del: of_int_round_abs_le)
  also have "\<dots> < 1 / 2"
    using k by (simp add: field_simps)
  finally show ?thesis
    by (rule round_unique')
qed

lemma round_scaled_forth:
  fixes k :: real and d :: int
  assumes "0 < k" and "k \<le> 1"
  shows "round (of_int (round (of_int d / k)) * k) = d"
proof -
  have "round (of_int (round (of_int d * (1 / k))) / (1 / k)) = d"
    using assms by (intro round_scaled_back) simp
  then show ?thesis by simp
qed

lemma round_scaled_back_bound:
  fixes k :: real and d :: int
  assumes "0 < k"
  shows "\<bar>of_int (round (of_int (round (of_int d * k)) / k)) - of_int d\<bar> \<le> 1 / 2 + 1 / (2 * k)"
proof -
  let ?p = "round (of_int d * k)"
  have a: "\<bar>of_int (round (of_int ?p / k)) - of_int ?p / k\<bar> \<le> 1 / 2"
    by (rule of_int_round_abs_le)
  have "\<bar>of_int ?p - of_int d * k\<bar> \<le> 1 / 2"
    by (rule of_int_round_abs_le)
  moreover have "of_int ?p / k - of_int d = (of_int ?p - of_int d * k) / k"
    using assms by (simp add: field_simps)
  ultimately have b: "\<bar>of_int ?p / k - of_int d\<bar> \<le> 1 / (2 * k)"
    using assms by (simp add: abs_divide divide_right_mono field_simps del: of_int_round_abs_le)
  from a b show ?thesis by linarith
qed

lemma round_scaled_forth_bound:
  fixes k :: real and d :: int
  assumes "0 < k"
  shows "\<bar>of_int (round (of_int (round (of_int d / k)) * k)) - of_int d\<bar> \<le> 1 / 2 + k / 2"
proof -
  have "\<bar>of_int (round (of_int (round (of_int d * (1 / k))) / (1 / k))) - of_int d\<bar>
          \<le> 1 / 2 + 1 / (2 * (1 / k))"
    using assms by (intro round_scaled_back_bound) simp
  then show ?thesis by simp
qed

text \<open>
  The conversions that \<^verbatim>\<open>test_time_map.py\<close> checks in \<^verbatim>\<open>_convert\<close>: after
  \<^verbatim>\<open>update(z_p, z_t, w_p / w_t)\<close> the anchor maps to the anchor, and the time \<open>z_t + w_t\<close>
  and the pixel \<open>z_p + w_p\<close> map to each other.
\<close>

lemma time_map_test_convert:
  assumes "0 < w_p" and "0 < w_t"
  shows "\<exists>tm. update z_p z_t (of_int w_p / of_int w_t) tm0 = Inr tm
           \<and> trel_offset tm = trel_offset tm0
           \<and> time64_to_pixel tm z_t = z_p \<and> pixel_to_time64 tm z_p = z_t
           \<and> time64_to_pixel tm (z_t + w_t) = z_p + w_p
           \<and> pixel_to_time64 tm (z_p + w_p) = z_t + w_t"
proof -
  from assms have pos: "0 < (of_int w_p / of_int w_t :: real)" by simp
  then have "\<not> (of_int w_p / of_int w_t :: real) \<le> 0" by linarith
  with assms show ?thesis
    by (simp add: update_def time64_to_pixel_def pixel_to_time64_def)
qed

text \<open>
  C9. For every time map with a strictly positive scale (any anchor pixel, any anchor
  time), every integer time \<open>t\<close> and every integer pixel \<open>p\<close>: the round trip
  time, pixel, time returns \<open>t\<close> itself when the scale is at least one pixel per unit of
  time, and the round trip pixel, time, pixel returns \<open>p\<close> itself when the scale is at
  most one; at any scale the round trips are off by no more than the rounding of the two
  maps: \<open>1/2 + 1/(2 scale)\<close> units of time, and \<open>1/2 + scale/2\<close> pixels.
\<close>

theorem time_map_round_trip:
  assumes "0 < pixels_per_time tm"
  shows "(1 \<le> pixels_per_time tm \<longrightarrow> pixel_to_time64 tm (time64_to_pixel tm t) = t)
     \<and> (pixels_per_time tm \<le> 1 \<longrightarrow> time64_to_pixel tm (pixel_to_time64 tm p) = p)
     \<and> \<bar>real_of_int (pixel_to_time64 tm (time64_to_pixel tm t)) - real_of_int t\<bar>
          \<le> 1 / 2 + 1 / (2 * pixels_per_time tm)
     \<and> \<bar>real_of_int (time64_to_pixel tm (pixel_to_time64 tm p)) - real_of_int p\<bar>
          \<le> 1 / 2 + pixels_per_time tm / 2"
proof -
  let ?k = "pixels_per_time tm"
  have a: "1 \<le> ?k \<longrightarrow> pixel_to_time64 tm (time64_to_pixel tm t) = t"
    by (simp add: pixel_to_time64_def time64_to_pixel_def round_scaled_back del: of_int_diff)
  have b: "?k \<le> 1 \<longrightarrow> time64_to_pixel tm (pixel_to_time64 tm p) = p"
    using assms
    by (simp add: pixel_to_time64_def time64_to_pixel_def round_scaled_forth del: of_int_diff)
  have c: "\<bar>real_of_int (pixel_to_time64 tm (time64_to_pixel tm t)) - real_of_int t\<bar>
          \<le> 1 / 2 + 1 / (2 * ?k)"
    using round_scaled_back_bound [OF assms, of "t - anchor_time tm"]
    by (simp add: pixel_to_time64_def time64_to_pixel_def del: of_int_diff)
  have d: "\<bar>real_of_int (time64_to_pixel tm (pixel_to_time64 tm p)) - real_of_int p\<bar>
          \<le> 1 / 2 + ?k / 2"
    using round_scaled_forth_bound [OF assms, of "p - anchor_pixel tm"]
    by (simp add: pixel_to_time64_def time64_to_pixel_def del: of_int_diff)
  from a b c d show ?thesis by blast
qed

theorem time_map_round_trip_witness:
  "time64_to_pixel
      \<lparr>trel_offset = 0, anchor_pixel = 100, anchor_time = 1073741824,
       pixels_per_time = 200 / 1073741824\<rparr>
      (pixel_to_time64
         \<lparr>trel_offset = 0, anchor_pixel = 100, anchor_time = 1073741824,
          pixels_per_time = 200 / 1073741824\<rparr> 300) = 300
   \<and> pixel_to_time64 \<lparr>trel_offset = 0, anchor_pixel = 0, anchor_time = 0, pixels_per_time = 2\<rparr>
       (time64_to_pixel \<lparr>trel_offset = 0, anchor_pixel = 0, anchor_time = 0, pixels_per_time = 2\<rparr> 5)
       = 5"
  using
    time_map_round_trip [of
      "\<lparr>trel_offset = 0, anchor_pixel = 100, anchor_time = 1073741824,
        pixels_per_time = 200 / 1073741824\<rparr>" 0 300]
    time_map_round_trip [of
      "\<lparr>trel_offset = 0, anchor_pixel = 0, anchor_time = 0, pixels_per_time = 2\<rparr>" 5 0]
  by simp

section \<open>Clearing and restoring the accumulators\<close>

text \<open>
  The callback fails exactly on a sample without accumulation sample indices, whatever the
  stored baseline is, and it changes nothing of the session but the stored baseline.
\<close>

lemma on_stats_empty: "accum_samples v = [] \<Longrightarrow> on_stats v s = Inl IndexError"
  by (cases "statistics_offsets s")
    (auto simp add: on_stats_def list_last_def list_set0_def)

lemma on_stats_nonempty:
  assumes "accum_samples v \<noteq> []"
  shows "\<exists>out b. on_stats v s = Inr (out, s\<lparr>statistics_offsets := Some b\<rparr>)"
proof (cases "statistics_offsets s")
  case None
  from on_stats_first [OF None assms] show ?thesis by blast
next
  case (Some b)
  obtain a c e where b: "b = (a, c, e)" by (cases b) auto
  have "s\<lparr>statistics_offsets := Some b\<rparr> = s" using Some by simp
  with on_stats_with_baseline [OF Some [unfolded b] assms] show ?thesis by metis
qed

lemma on_stats_all_empty:
  "\<exists>v \<in> set ms. accum_samples v = [] \<Longrightarrow> on_stats_all ms s = Inl IndexError"
proof (induction ms arbitrary: s)
  case Nil
  then show ?case by simp
next
  case (Cons m ms)
  show ?case
  proof (cases "accum_samples m = []")
    case True
    then show ?thesis by (simp add: on_stats_empty)
  next
    case False
    from on_stats_nonempty [OF False] obtain out b where
      o: "on_stats m s = Inr (out, s\<lparr>statistics_offsets := Some b\<rparr>)" by blast
    from Cons.prems False have "\<exists>v \<in> set ms. accum_samples v = []" by auto
    from Cons.IH [OF this] show ?thesis by (simp add: o)
  qed
qed

lemma on_stats_all_nonempty:
  "\<forall>v \<in> set ms. accum_samples v \<noteq> []
     \<Longrightarrow> \<exists>outs b. on_stats_all ms s = Inr (outs, s\<lparr>statistics_offsets := b\<rparr>)"
proof (induction ms arbitrary: s)
  case Nil
  have "s\<lparr>statistics_offsets := statistics_offsets s\<rparr> = s" by simp
  then show ?case by (metis on_stats_all.simps(1))
next
  case (Cons m ms)
  then have m: "accum_samples m \<noteq> []" and ms: "\<forall>v \<in> set ms. accum_samples v \<noteq> []"
    by simp_all
  from on_stats_nonempty [OF m] obtain out b where
    o: "on_stats m s = Inr (out, s\<lparr>statistics_offsets := Some b\<rparr>)" by blast
  from Cons.IH [OF ms] obtain outs b' where
    r: "on_stats_all ms (s\<lparr>statistics_offsets := Some b\<rparr>)
          = Inr (outs, s\<lparr>statistics_offsets := Some b\<rparr>\<lparr>statistics_offsets := b'\<rparr>)"
    by blast
  have "on_stats_all (m # ms) s = Inr (out # outs, s\<lparr>statistics_offsets := b'\<rparr>)"
    by (simp add: o r)
  then show ?case by blast
qed

lemma accum_clear_eq:
  "on_action_accum_clear topic b s = ((topic, statistics_offsets s), s\<lparr>statistics_offsets := b\<rparr>)"
  by (cases b) (simp_all add: on_action_accum_clear_def)

text \<open>
  C4, as stated, fails when the clear finds no baseline and a sample arrives before the
  restore. From the initial session (baseline null): clear returns null; the sample
  \<open>([0, 1000], charge 1, energy 1)\<close> captures the baseline \<open>(1000, 1, 1)\<close>; the restore
  with the returned null erases it; the sample \<open>([1000, 2000], charge 3, energy 4)\<close>
  captures a baseline of its own and is published as \<open>([2000, 2000], 0, 0)\<close>. Had clear
  never been called, the first sample's baseline would still stand and the second
  sample would be published as \<open>([1000, 2000], 2, 3)\<close>.
\<close>

theorem clear_restore_null_baseline:
  "clear_restore_then ''JS220-1/actions/!accum_clear''
     [\<lparr>accum_samples = [0, 1000], charge = 1, energy = 1, source = None\<rparr>]
     \<lparr>accum_samples = [1000, 2000], charge = 3, energy = 4, source = None\<rparr>
     (js220_init ''JS220-1'' ''JS220-1'' ''1'')
     = Inr (''events/statistics/!data'',
            \<lparr>accum_samples = [2000, 2000], charge = 0, energy = 0, source = Some ''JS220-1''\<rparr>)
   \<and> never_cleared_then
     [\<lparr>accum_samples = [0, 1000], charge = 1, energy = 1, source = None\<rparr>]
     \<lparr>accum_samples = [1000, 2000], charge = 3, energy = 4, source = None\<rparr>
     (js220_init ''JS220-1'' ''JS220-1'' ''1'')
     = Inr (''events/statistics/!data'',
            \<lparr>accum_samples = [1000, 2000], charge = 2, energy = 3, source = Some ''JS220-1''\<rparr>)"
  by (simp add: clear_restore_then_def never_cleared_then_def on_action_accum_clear_def
      on_stats_def list_last_def list_set0_def js220_init_def)

text \<open>
  C4, amended. The action returns the stored baseline under its topic and stores the
  value it is given: with a null value it returns the previous baseline and resets the
  stored baseline to null, and with a baseline it stores that baseline verbatim,
  whatever samples were processed since. When a baseline was stored at the clear, or when
  no sample arrives between the clear and the restore, a sample \<open>v\<close> processed after the
  clear, the samples \<open>ms\<close> and the restore with the returned value is published exactly
  as it would have been after the samples \<open>ms\<close> without any clear (and the callback
  fails in the one run exactly when it fails in the other).
\<close>

theorem accum_clear_round_trip:
  "on_action_accum_clear topic None s
     = ((topic, statistics_offsets s), s\<lparr>statistics_offsets := None\<rparr>)
   \<and> on_action_accum_clear topic (Some b) s'
     = ((topic, statistics_offsets s'), s'\<lparr>statistics_offsets := Some b\<rparr>)
   \<and> (statistics_offsets s \<noteq> None \<or> ms = []
        \<longrightarrow> clear_restore_then topic ms v s = never_cleared_then ms v s)"
proof -
  have "clear_restore_then topic ms v s = never_cleared_then ms v s"
    if h: "statistics_offsets s \<noteq> None \<or> ms = []"
  proof (cases "ms = []")
    case True
    have "s\<lparr>statistics_offsets := None\<rparr>\<lparr>statistics_offsets := statistics_offsets s\<rparr> = s"
      by simp
    then show ?thesis
      by (simp add: True clear_restore_then_def never_cleared_then_def accum_clear_eq)
  next
    case False
    with h obtain a c e where b: "statistics_offsets s = Some (a, c, e)" by auto
    show ?thesis
    proof (cases "\<forall>m \<in> set ms. accum_samples m \<noteq> []")
      case True
      from on_stats_all_nonempty [OF True] obtain outs y where
        c1: "on_stats_all ms (s\<lparr>statistics_offsets := None\<rparr>)
               = Inr (outs, s\<lparr>statistics_offsets := None\<rparr>\<lparr>statistics_offsets := y\<rparr>)"
        by blast
      have rst: "s\<lparr>statistics_offsets := None\<rparr>\<lparr>statistics_offsets := y\<rparr>
                    \<lparr>statistics_offsets := statistics_offsets s\<rparr> = s"
        by simp
      have l: "clear_restore_then topic ms v s
                 = (case on_stats v s of Inl e \<Rightarrow> Inl e | Inr (out, _) \<Rightarrow> Inr out)"
        unfolding clear_restore_then_def accum_clear_eq
        by (simp add: c1 accum_clear_eq rst del: js220.update_convs)
      have r: "never_cleared_then ms v s
                 = (case on_stats v s of Inl e \<Rightarrow> Inl e | Inr (out, _) \<Rightarrow> Inr out)"
        unfolding never_cleared_then_def
        by (simp add: on_stats_all_with_baseline [OF b True])
      show ?thesis by (simp only: l r)
    next
      case False
      then have e: "\<exists>m \<in> set ms. accum_samples m = []" by simp
      show ?thesis
        by (simp add: clear_restore_then_def never_cleared_then_def accum_clear_eq
            on_stats_all_empty [OF e])
    qed
  qed
  then show ?thesis by (simp add: accum_clear_eq)
qed

theorem accum_clear_round_trip_witness:
  "clear_restore_then ''JS220-1/actions/!accum_clear''
     [\<lparr>accum_samples = [1000, 2000], charge = 3, energy = 4, source = None\<rparr>]
     \<lparr>accum_samples = [2000, 3000], charge = 6, energy = 8, source = None\<rparr>
     ((js220_init ''JS220-1'' ''JS220-1'' ''1'')\<lparr>statistics_offsets := Some (1000, 1, 1)\<rparr>)
     = Inr (''events/statistics/!data'',
            \<lparr>accum_samples = [1000, 3000], charge = 5, energy = 7, source = Some ''JS220-1''\<rparr>)
   \<and> never_cleared_then
     [\<lparr>accum_samples = [1000, 2000], charge = 3, energy = 4, source = None\<rparr>]
     \<lparr>accum_samples = [2000, 3000], charge = 6, energy = 8, source = None\<rparr>
     ((js220_init ''JS220-1'' ''JS220-1'' ''1'')\<lparr>statistics_offsets := Some (1000, 1, 1)\<rparr>)
     = Inr (''events/statistics/!data'',
            \<lparr>accum_samples = [1000, 3000], charge = 5, energy = 7, source = Some ''JS220-1''\<rparr>)"
  using accum_clear_round_trip [of "''JS220-1/actions/!accum_clear''"
      "(js220_init ''JS220-1'' ''JS220-1'' ''1'')\<lparr>statistics_offsets := Some (1000, 1, 1)\<rparr>"
      "(1000, 1, 1)"
      "(js220_init ''JS220-1'' ''JS220-1'' ''1'')\<lparr>statistics_offsets := Some (1000, 1, 1)\<rparr>"
      "[\<lparr>accum_samples = [1000, 2000], charge = 3, energy = 4, source = None\<rparr>]"
      "\<lparr>accum_samples = [2000, 3000], charge = 6, energy = 8, source = None\<rparr>"]
  by (simp add: never_cleared_then_def on_stats_def list_last_def list_set0_def js220_init_def)

section \<open>Firmware freshness\<close>

text \<open>
  C7, as stated, fails when a driver query raises: the two queries of the live versions
  come after the try block, so their exception leaves the check. With a release that
  parses (control application 5, sensor FPGA 7) and a driver whose query times out, the
  check returns neither null nor a map: it raises.
\<close>

theorem driver_query_failure_escapes:
  "is_firmware_update_available
     \<lparr>release_get = (\<lambda>c. Inr () :: error + unit),
      release_to_segments = (\<lambda>i. Inr [(1, 5), (2, 7)]),
      SUBTYPE_CTRL_APP = 1, SUBTYPE_SENSOR_FPGA = 2,
      version_to_str = (\<lambda>n. if n = 4 then ''0.0.4'' else if n = 5 then ''0.0.5'' else ''0.0.7''),
      driver_query = (\<lambda>t. Inl (OtherError ''timeout''))\<rparr>
     (js220_init ''dev'' ''dev'' ''1'')
     = Inl (OtherError ''timeout'')"
  by (simp add: is_firmware_update_available_def release_segments_def dict_get_def)

text \<open>
  C7, amended. When fetching the release image fails, when parsing it into segments
  fails, or when the segments lack the control application or the sensor FPGA, the check
  returns null after one log record, whatever the driver would answer: it raises nothing.
  When the release gives the versions \<open>ctrl_app\<close> and \<open>fpga\<close>: a driver query that raises
  makes the check raise the same exception; when both queries return, \<open>ctrl_app_now\<close>
  and \<open>fpga_now\<close>, the check returns null if \<open>ctrl_app_now \<ge> ctrl_app\<close> and
  \<open>fpga_now \<ge> fpga\<close>, and otherwise the map from \<open>ctrl_app\<close> and \<open>fpga\<close> to the pair of
  version strings [current, available]. These cases are all the cases, so the check
  returns null exactly in the failure cases of the release and in the up-to-date case.
\<close>

theorem firmware_check:
  "(release_get env (firmware_channel s) = Inl e \<longrightarrow>
      is_firmware_update_available env s
        = Inr (None, log_msg Info ''firmware_update_available: Could not parse firmware image'' s))
   \<and> (release_get env (firmware_channel s) = Inr img \<and> release_to_segments env img = Inl e \<longrightarrow>
      is_firmware_update_available env s
        = Inr (None, log_msg Info ''firmware_update_available: Could not parse firmware image'' s))
   \<and> (release_get env (firmware_channel s) = Inr img \<and> release_to_segments env img = Inr segs \<and>
       (map_of segs (SUBTYPE_CTRL_APP env) = None \<or> map_of segs (SUBTYPE_SENSOR_FPGA env) = None) \<longrightarrow>
      is_firmware_update_available env s
        = Inr (None, log_msg Info ''firmware_update_available: Could not parse firmware image'' s))
   \<and> (release_get env (firmware_channel s) = Inr img \<and> release_to_segments env img = Inr segs \<and>
       map_of segs (SUBTYPE_CTRL_APP env) = Some ctrl_app \<and>
       map_of segs (SUBTYPE_SENSOR_FPGA env) = Some fpga \<longrightarrow>
      (driver_query env ''c/fw/version'' = Inl e \<longrightarrow> is_firmware_update_available env s = Inl e)
      \<and> (driver_query env ''c/fw/version'' = Inr ctrl_app_now \<and>
          driver_query env ''s/fpga/version'' = Inl e \<longrightarrow>
            is_firmware_update_available env s = Inl e)
      \<and> (driver_query env ''c/fw/version'' = Inr ctrl_app_now \<and>
          driver_query env ''s/fpga/version'' = Inr fpga_now \<longrightarrow>
            (ctrl_app_now \<ge> ctrl_app \<and> fpga_now \<ge> fpga \<longrightarrow>
               is_firmware_update_available env s
                 = Inr (None, log_msg Info ''firmware_update_available %s: up to date'' s))
            \<and> (\<not> (ctrl_app_now \<ge> ctrl_app \<and> fpga_now \<ge> fpga) \<longrightarrow>
               is_firmware_update_available env s
                 = Inr (Some [(''ctrl_app'', [version_to_str env ctrl_app_now,
                                              version_to_str env ctrl_app]),
                              (''fpga'', [version_to_str env fpga_now, version_to_str env fpga])],
                        log_msg Info ''firmware_update_available %s: %s'' s))))"
proof -
  have 1: "is_firmware_update_available env s
        = Inr (None, log_msg Info ''firmware_update_available: Could not parse firmware image'' s)"
    if "release_get env (firmware_channel s) = Inl e"
    using that by (simp add: is_firmware_update_available_def release_segments_def)
  have 2: "is_firmware_update_available env s
        = Inr (None, log_msg Info ''firmware_update_available: Could not parse firmware image'' s)"
    if "release_get env (firmware_channel s) = Inr img" "release_to_segments env img = Inl e"
    using that by (simp add: is_firmware_update_available_def release_segments_def)
  have 3: "is_firmware_update_available env s
        = Inr (None, log_msg Info ''firmware_update_available: Could not parse firmware image'' s)"
    if "release_get env (firmware_channel s) = Inr img" "release_to_segments env img = Inr segs"
      "map_of segs (SUBTYPE_CTRL_APP env) = None \<or> map_of segs (SUBTYPE_SENSOR_FPGA env) = None"
    using that
    by (auto simp add: is_firmware_update_available_def release_segments_def dict_get_def
        split: option.splits)
  have 4: "release_segments env s = Inr (ctrl_app, fpga)"
    if "release_get env (firmware_channel s) = Inr img" "release_to_segments env img = Inr segs"
      "map_of segs (SUBTYPE_CTRL_APP env) = Some ctrl_app"
      "map_of segs (SUBTYPE_SENSOR_FPGA env) = Some fpga"
    using that by (simp add: release_segments_def dict_get_def)
  show ?thesis
    using 1 2 3 by (auto simp add: is_firmware_update_available_def 4 Let_def)
qed

theorem firmware_check_witness:
  "is_firmware_update_available
       \<lparr>release_get = (\<lambda>c. Inl (OtherError ''unreachable'') :: error + unit),
        release_to_segments = (\<lambda>i. Inr [(1, 5), (2, 7)]),
        SUBTYPE_CTRL_APP = 1, SUBTYPE_SENSOR_FPGA = 2,
        version_to_str = (\<lambda>n. if n = 4 then ''0.0.4'' else if n = 5 then ''0.0.5'' else ''0.0.7''),
        driver_query = (\<lambda>t. Inl (OtherError ''timeout''))\<rparr>
       (js220_init ''dev'' ''dev'' ''1'')
     = Inr (None, log_msg Info ''firmware_update_available: Could not parse firmware image''
                   (js220_init ''dev'' ''dev'' ''1''))
   \<and> is_firmware_update_available
       \<lparr>release_get = (\<lambda>c. Inr () :: error + unit),
        release_to_segments = (\<lambda>i. Inr [(1, 5)]),
        SUBTYPE_CTRL_APP = 1, SUBTYPE_SENSOR_FPGA = 2,
        version_to_str = (\<lambda>n. if n = 4 then ''0.0.4'' else if n = 5 then ''0.0.5'' else ''0.0.7''),
        driver_query = (\<lambda>t. if t = ''c/fw/version'' then Inr 4 else Inr 7)\<rparr>
       (js220_init ''dev'' ''dev'' ''1'')
     = Inr (None, log_msg Info ''firmware_update_available: Could not parse firmware image''
                   (js220_init ''dev'' ''dev'' ''1''))
   \<and> is_firmware_update_available
       \<lparr>release_get = (\<lambda>c. Inr () :: error + unit),
        release_to_segments = (\<lambda>i. Inr [(1, 5), (2, 7)]),
        SUBTYPE_CTRL_APP = 1, SUBTYPE_SENSOR_FPGA = 2,
        version_to_str = (\<lambda>n. if n = 4 then ''0.0.4'' else if n = 5 then ''0.0.5'' else ''0.0.7''),
        driver_query = (\<lambda>t. if t = ''c/fw/version'' then Inr 4 else Inr 7)\<rparr>
       (js220_init ''dev'' ''dev'' ''1'')
     = Inr (Some [(''ctrl_app'', [''0.0.4'', ''0.0.5'']), (''fpga'', [''0.0.7'', ''0.0.7''])],
            log_msg Info ''firmware_update_available %s: %s'' (js220_init ''dev'' ''dev'' ''1''))
   \<and> is_firmware_update_available
       \<lparr>release_get = (\<lambda>c. Inr () :: error + unit),
        release_to_segments = (\<lambda>i. Inr [(1, 5), (2, 7)]),
        SUBTYPE_CTRL_APP = 1, SUBTYPE_SENSOR_FPGA = 2,
        version_to_str = (\<lambda>n. if n = 4 then ''0.0.4'' else if n = 5 then ''0.0.5'' else ''0.0.7''),
        driver_query = (\<lambda>t. if t = ''c/fw/version'' then Inr 5 else Inr 8)\<rparr>
       (js220_init ''dev'' ''dev'' ''1'')
     = Inr (None, log_msg Info ''firmware_update_available %s: up to date''
                   (js220_init ''dev'' ''dev'' ''1''))"
  using
    firmware_check [of
      "\<lparr>release_get = (\<lambda>c. Inl (OtherError ''unreachable'') :: error + unit),
        release_to_segments = (\<lambda>i. Inr [(1, 5), (2, 7)]),
        SUBTYPE_CTRL_APP = 1, SUBTYPE_SENSOR_FPGA = 2,
        version_to_str = (\<lambda>n. if n = 4 then ''0.0.4'' else if n = 5 then ''0.0.5'' else ''0.0.7''),
        driver_query = (\<lambda>t. Inl (OtherError ''timeout''))\<rparr>"
      "js220_init ''dev'' ''dev'' ''1''" "OtherError ''unreachable''" "()" "[(1, 5), (2, 7)]" 5 7 4 7]
    firmware_check [of
      "\<lparr>release_get = (\<lambda>c. Inr () :: error + unit),
        release_to_segments = (\<lambda>i. Inr [(1, 5)]),
        SUBTYPE_CTRL_APP = 1, SUBTYPE_SENSOR_FPGA = 2,
        version_to_str = (\<lambda>n. if n = 4 then ''0.0.4'' else if n = 5 then ''0.0.5'' else ''0.0.7''),
        driver_query = (\<lambda>t. if t = ''c/fw/version'' then Inr 4 else Inr 7)\<rparr>"
      "js220_init ''dev'' ''dev'' ''1''" "OtherError ''unreachable''" "()" "[(1, 5)]" 5 7 4 7]
    firmware_check [of
      "\<lparr>release_get = (\<lambda>c. Inr () :: error + unit),
        release_to_segments = (\<lambda>i. Inr [(1, 5), (2, 7)]),
        SUBTYPE_CTRL_APP = 1, SUBTYPE_SENSOR_FPGA = 2,
        version_to_str = (\<lambda>n. if n = 4 then ''0.0.4'' else if n = 5 then ''0.0.5'' else ''0.0.7''),
        driver_query = (\<lambda>t. if t = ''c/fw/version'' then Inr 4 else Inr 7)\<rparr>"
      "js220_init ''dev'' ''dev'' ''1''" "OtherError ''unreachable''" "()" "[(1, 5), (2, 7)]" 5 7 4 7]
    firmware_check [of
      "\<lparr>release_get = (\<lambda>c. Inr () :: error + unit),
        release_to_segments = (\<lambda>i. Inr [(1, 5), (2, 7)]),
        SUBTYPE_CTRL_APP = 1, SUBTYPE_SENSOR_FPGA = 2,
        version_to_str = (\<lambda>n. if n = 4 then ''0.0.4'' else if n = 5 then ''0.0.5'' else ''0.0.7''),
        driver_query = (\<lambda>t. if t = ''c/fw/version'' then Inr 5 else Inr 8)\<rparr>"
      "js220_init ''dev'' ''dev'' ''1''" "OtherError ''unreachable''" "()" "[(1, 5), (2, 7)]" 5 7 5 8]
  by simp

section \<open>Open and close requests\<close>

lemma ctrl_off_fields:
  "thread (snd (ctrl_off sgs s)) = thread s"
  "alive (snd (ctrl_off sgs s)) = alive s"
  "started (snd (ctrl_off sgs s)) = started s"
  by (induction sgs arbitrary: s) (simp_all add: driver_publish_def split: option.splits)

lemma ctrl_off_trace:
  "\<exists>w. trace (snd (ctrl_off sgs s)) = trace s @ w \<and> (\<forall>n. ThreadStart n \<notin> set w)"
proof (induction sgs arbitrary: s)
  case Nil
  show ?case by simp
next
  case (Cons sg sgs)
  show ?case
  proof (cases "fst (sig_topics sg)")
    case None
    then show ?thesis by simp
  next
    case (Some t)
    let ?s' = "driver_publish t (PInt 0) s"
    have "\<exists>w. trace (snd (ctrl_off sgs ?s')) = trace ?s' @ w \<and> (\<forall>n. ThreadStart n \<notin> set w)"
      by (rule Cons.IH)
    then obtain w where w: "trace (snd (ctrl_off sgs ?s')) = trace ?s' @ w"
      and n: "\<forall>n. ThreadStart n \<notin> set w"
      by (elim exE conjE)
    have t: "trace ?s' = trace s @ [DriverPublish t (PInt 0)]"
      by (simp add: driver_publish_def)
    have c: "ctrl_off (sg # sgs) s = ctrl_off sgs ?s'"
      using Some by simp
    have "trace (snd (ctrl_off (sg # sgs) s)) = trace s @ (DriverPublish t (PInt 0) # w)"
      unfolding c w t by simp
    moreover have "\<forall>n. ThreadStart n \<notin> set (DriverPublish t (PInt 0) # w)"
      using n by simp
    ultimately show ?thesis
      by (intro exI [of _ "DriverPublish t (PInt 0) # w"] conjI)
  qed
qed

lemma dev_close_fields:
  "thread (dev_close s) = thread s \<and> alive (dev_close s) = alive s
   \<and> started (dev_close s) = started s"
proof (cases "driver_device_open s")
  case False
  then show ?thesis by (simp add: dev_close_def log_msg_def)
next
  case True
  let ?s2 = "ui_publish ''settings/state'' (PStr ''closing'') (log_msg Info ''close %s start'' s)"
  have f2: "thread ?s2 = thread s" "alive ?s2 = alive s" "started ?s2 = started s"
    by (simp_all add: ui_publish_def log_msg_def STATE_OPTIONS_def)
  obtain ok s' where c: "ctrl_off (map snd SIGNALS) ?s2 = (ok, s')"
    by (cases "ctrl_off (map snd SIGNALS) ?s2") blast
  have "thread (snd (ctrl_off (map snd SIGNALS) ?s2)) = thread ?s2"
    "alive (snd (ctrl_off (map snd SIGNALS) ?s2)) = alive ?s2"
    "started (snd (ctrl_off (map snd SIGNALS) ?s2)) = started ?s2"
    by (rule ctrl_off_fields)+
  then have f': "thread s' = thread s" "alive s' = alive s" "started s' = started s"
    unfolding c f2 by simp_all
  have d: "dev_close s
             = log_msg Info ''close %s done''
                 ((if ok then driver_publish ''s/stats/ctrl'' (PInt 0) s'
                   else log_msg Info ''Exception during close cleanup: %s'' s')
                  \<lparr>driver_device_open := False\<rparr>)"
    using True by (simp add: dev_close_def Let_def c)
  show ?thesis
    unfolding d using f' by (simp add: log_msg_def driver_publish_def)
qed

lemma dev_close_trace:
  "\<exists>w. trace (dev_close s) = trace s @ w \<and> (\<forall>n. ThreadStart n \<notin> set w)"
proof (cases "driver_device_open s")
  case False
  then show ?thesis by (simp add: dev_close_def log_msg_def)
next
  case True
  let ?s2 = "ui_publish ''settings/state'' (PStr ''closing'') (log_msg Info ''close %s start'' s)"
  have t2: "trace ?s2 = trace s @ [Log Info ''close %s start'',
              UiPublish ''settings/state'' (PStr ''closing'')]"
    by (simp add: ui_publish_def log_msg_def STATE_OPTIONS_def)
  obtain ok s' where c: "ctrl_off (map snd SIGNALS) ?s2 = (ok, s')"
    by (cases "ctrl_off (map snd SIGNALS) ?s2") blast
  from ctrl_off_trace [of "map snd SIGNALS" ?s2] c obtain w where
    w: "trace s' = trace ?s2 @ w" "\<forall>n. ThreadStart n \<notin> set w"
    by auto
  show ?thesis
  proof (cases ok)
    case True
    with \<open>driver_device_open s\<close> c w t2 show ?thesis
      by (intro exI [of _ "[Log Info ''close %s start'', UiPublish ''settings/state'' (PStr ''closing'')]
            @ w @ [DriverPublish ''s/stats/ctrl'' (PInt 0), Log Info ''close %s done'']"])
        (simp add: dev_close_def Let_def log_msg_def driver_publish_def)
  next
    case False
    with \<open>driver_device_open s\<close> c w t2 show ?thesis
      by (intro exI [of _ "[Log Info ''close %s start'', UiPublish ''settings/state'' (PStr ''closing'')]
            @ w @ [Log Info ''Exception during close cleanup: %s'', Log Info ''close %s done'']"])
        (simp add: dev_close_def Let_def log_msg_def)
  qed
qed

lemma worker_stopped_fields:
  "thread (worker_stopped t s) = thread s"
  "alive (worker_stopped t s) = alive s - {t}"
  "started (worker_stopped t s) = started s"
  using dev_close_fields [of s]
  by (auto simp add: worker_stopped_def Let_def log_msg_def)

lemma worker_stopped_trace:
  "\<exists>w. trace (worker_stopped t s) = trace s @ w \<and> (\<forall>n. ThreadStart n \<notin> set w)"
proof (cases "t \<in> alive s")
  case False
  then show ?thesis by (simp add: worker_stopped_def)
next
  case True
  from dev_close_trace [of s] obtain w where
    "trace (dev_close s) = trace s @ w" "\<forall>n. ThreadStart n \<notin> set w" by blast
  with True show ?thesis
    by (intro exI [of _ "w @ [Log Info ''thread stop'']"])
      (simp add: worker_stopped_def Let_def log_msg_def)
qed

lemma close_req_no_thread: "thread s = None \<Longrightarrow> close_req s = s"
  by (simp add: close_req_def)

lemma close_req_fields:
  assumes "thread s = Some t"
  shows "thread (close_req s) = None" and "alive (close_req s) = alive s - {t}"
    and "started (close_req s) = started s" and "state (close_req s) = 0"
  using assms
  by (simp_all add: close_req_def Let_def log_msg_def ui_publish_def send_to_thread_def
      thread_join_def STATE_OPTIONS_def worker_stopped_fields)

lemma close_req_trace:
  assumes "thread s = Some t"
  shows "\<exists>pre. trace (close_req s)
            = trace s @ pre @ [ThreadJoin t, UiPublish ''settings/state'' (PStr ''closed''),
                               Log Info ''closed'']
          \<and> (\<forall>n. ThreadStart n \<notin> set pre)"
proof -
  let ?s4 = "(send_to_thread ''close'' None
               (ui_publish ''settings/state'' (PStr ''closing'')
                 (log_msg Info ''closing'' (s\<lparr>thread := None\<rparr>))))\<lparr>quit := True\<rparr>"
  have t4: "trace ?s4 = trace s @ [Log Info ''closing'',
              UiPublish ''settings/state'' (PStr ''closing'')]"
    by (simp add: send_to_thread_def ui_publish_def log_msg_def STATE_OPTIONS_def)
  from worker_stopped_trace [of t ?s4] obtain w where
    w: "trace (worker_stopped t ?s4) = trace ?s4 @ w" "\<forall>n. ThreadStart n \<notin> set w" by blast
  have "trace (close_req s)
          = trace (worker_stopped t ?s4) @ [ThreadJoin t,
              UiPublish ''settings/state'' (PStr ''closed''), Log Info ''closed'']"
    using assms
    by (simp add: close_req_def Let_def thread_join_def ui_publish_def log_msg_def
        STATE_OPTIONS_def)
  with w t4 show ?thesis
    by (intro exI [of _ "[Log Info ''closing'', UiPublish ''settings/state'' (PStr ''closing'')] @ w"])
      simp
qed

lemma drain_empty: "drain q = []"
  by (induction q) simp_all

lemma open_req_no_thread:
  "thread s = None \<Longrightarrow>
   open_req s
     = s\<lparr>thread := Some (started s), quit := False, queue := [],
         state := 1, alive := insert (started s) (alive s), started := Suc (started s),
         trace := trace s @ [Log Info ''open req start'',
                            UiPublish ''settings/state'' (PStr ''opening''),
                            ThreadStart (started s), Log Info ''open req done'']\<rparr>"
  by (simp add: open_req_def Let_def log_msg_def ui_publish_def thread_start_def
      STATE_OPTIONS_def drain_empty)

lemma open_req_idle:
  "thread s \<noteq> None \<Longrightarrow> state s \<noteq> 3 \<Longrightarrow> open_req s = s"
  by (auto simp add: open_req_def ui_query_state_def)

lemma open_req_closing:
  assumes "thread s = Some t" and "state s = 3"
  shows "open_req s = open_req (close_req s)"
  using assms by (simp add: open_req_def ui_query_state_def close_req_fields)

lemma open_req_result:
  "thread (open_req s) \<noteq> None \<and> state (open_req s) \<noteq> 3"
proof (cases "thread s")
  case None
  then show ?thesis by (simp add: open_req_no_thread)
next
  case (Some t)
  show ?thesis
  proof (cases "state s = 3")
    case True
    with Some have o: "open_req s = open_req (close_req s)" by (rule open_req_closing)
    have c: "thread (close_req s) = None" using Some by (rule close_req_fields)
    show ?thesis unfolding o by (simp add: open_req_no_thread [OF c])
  next
    case False
    with Some show ?thesis by (simp add: open_req_idle)
  qed
qed

lemma session_inv_init: "session_inv (js220_init tname uid serial)"
  by (simp add: session_inv_def js220_init_def)

lemma session_inv_close_req: "session_inv s \<Longrightarrow> session_inv (close_req s)"
  by (cases "thread s") (auto simp add: session_inv_def close_req_no_thread close_req_fields)

lemma session_inv_open_req:
  assumes "session_inv s"
  shows "session_inv (open_req s)"
proof (cases "thread s")
  case None
  with assms show ?thesis by (auto simp add: session_inv_def open_req_no_thread)
next
  case (Some t)
  show ?thesis
  proof (cases "state s = 3")
    case True
    have c: "thread (close_req s) = None" "alive (close_req s) = alive s - {t}"
      using Some by (rule close_req_fields)+
    from Some True have "open_req s = open_req (close_req s)" by (rule open_req_closing)
    with c assms Some show ?thesis
      by (auto simp add: session_inv_def open_req_no_thread)
  next
    case False
    with Some assms show ?thesis by (simp add: open_req_idle)
  qed
qed

lemma session_inv_worker:
  assumes "session_inv s"
  shows "session_inv (worker_open_failed t s)" and "session_inv (worker_opened t hw fw fpga s)"
    and "session_inv (worker_stopped t s)"
  using assms
  by (auto simp add: session_inv_def worker_open_failed_def worker_opened_def
      dev_open_failed_def dev_open_ok_def worker_stopped_fields
      Let_def log_msg_def ui_publish_def ui_publish_info_def driver_publish_def STATE_OPTIONS_def)

lemma session_inv_step: "session_inv s \<Longrightarrow> session_inv (step s a)"
  by (cases a) (simp_all add: session_inv_open_req session_inv_close_req session_inv_worker)

lemma session_inv_run: "session_inv s \<Longrightarrow> session_inv (run s acts)"
  unfolding run_def by (induction acts arbitrary: s) (simp_all add: session_inv_step)

lemma session_inv_card: "session_inv s \<Longrightarrow> card (alive s) \<le> 1"
proof -
  assume "session_inv s"
  then have sub: "alive s \<subseteq> set_option (thread s)" by (simp add: session_inv_def)
  have "card (alive s) \<le> card (set_option (thread s))"
    by (rule card_mono [OF _ sub]) simp
  also have "\<dots> \<le> 1" by (cases "thread s") simp_all
  finally show ?thesis .
qed

text \<open>
  The retry after a failed open: the first worker has published \<open>closing\<close> and ended, the
  session still refers to it, and the next open-request closes (joining thread 0) and
  starts thread 1.
\<close>

lemma open_after_failed_open:
  "thread (run (js220_init ''dev'' ''dev'' ''1'') [OpenReq, WorkerOpenFailed 0]) = Some 0
   \<and> state (run (js220_init ''dev'' ''dev'' ''1'') [OpenReq, WorkerOpenFailed 0]) = 3
   \<and> alive (run (js220_init ''dev'' ''dev'' ''1'') [OpenReq, WorkerOpenFailed 0]) = {}
   \<and> alive (run (js220_init ''dev'' ''dev'' ''1'') [OpenReq, WorkerOpenFailed 0, OpenReq]) = {1}"
  by (simp add: run_def open_req_def close_req_def worker_open_failed_def dev_open_failed_def
      worker_stopped_def ui_query_state_def
      Let_def log_msg_def ui_publish_def send_to_thread_def thread_join_def thread_start_def
      STATE_OPTIONS_def js220_init_def)

text \<open>
  C1. For every sequence of open-requests and close-requests, interleaved in any way with
  the steps of the worker, from the initial session: only the thread the session refers
  to can be running, so at most one worker thread runs at any time. A close-request while
  no worker is referenced changes nothing at all: nothing is published, nothing is
  enqueued, and the state stays what it was (closed). An open-request while a worker is
  referenced and the state is closing first closes: the prior worker is joined and the
  state closed is published, and only after the join the new worker is started (no
  thread is started before the join); afterwards the prior worker does not run and the
  new one is the only thread referenced. A second open-request right after an
  open-request changes nothing, and so does every open-request while a worker is
  referenced and the state is not closing: no additional worker thread is started.
\<close>

theorem session_lifecycle:
  "(\<forall>acts. alive (run (js220_init tname uid serial) acts)
              \<subseteq> set_option (thread (run (js220_init tname uid serial) acts))
           \<and> card (alive (run (js220_init tname uid serial) acts)) \<le> 1)
   \<and> (thread s = None \<longrightarrow> close_req s = s)
   \<and> (thread s = Some t \<and> state s = 3 \<longrightarrow>
        (\<exists>pre. trace (open_req s)
                  = trace s @ pre @ [ThreadJoin t, UiPublish ''settings/state'' (PStr ''closed''),
                                     Log Info ''closed'', Log Info ''open req start'',
                                     UiPublish ''settings/state'' (PStr ''opening''),
                                     ThreadStart (started s), Log Info ''open req done'']
                \<and> (\<forall>n. ThreadStart n \<notin> set pre))
        \<and> thread (open_req s) = Some (started s)
        \<and> alive (open_req s) = insert (started s) (alive s - {t})
        \<and> started (open_req s) = Suc (started s))
   \<and> (thread s \<noteq> None \<and> state s \<noteq> 3 \<longrightarrow> open_req s = s)
   \<and> open_req (open_req s) = open_req s"
proof -
  have i: "session_inv (run (js220_init tname uid serial) acts)" for acts
    by (rule session_inv_run [OF session_inv_init])
  have a: "alive (run (js220_init tname uid serial) acts)
              \<subseteq> set_option (thread (run (js220_init tname uid serial) acts))" for acts
    using i [of acts] by (simp add: session_inv_def)
  have c: "card (alive (run (js220_init tname uid serial) acts)) \<le> 1" for acts
    by (rule session_inv_card [OF i])
  have j: "(\<exists>pre. trace (open_req s)
                  = trace s @ pre @ [ThreadJoin t, UiPublish ''settings/state'' (PStr ''closed''),
                                     Log Info ''closed'', Log Info ''open req start'',
                                     UiPublish ''settings/state'' (PStr ''opening''),
                                     ThreadStart (started s), Log Info ''open req done'']
                \<and> (\<forall>n. ThreadStart n \<notin> set pre))
        \<and> thread (open_req s) = Some (started s)
        \<and> alive (open_req s) = insert (started s) (alive s - {t})
        \<and> started (open_req s) = Suc (started s)"
    if h: "thread s = Some t" "state s = 3"
  proof -
    have o: "open_req s = open_req (close_req s)"
      using h by (rule open_req_closing)
    have f: "thread (close_req s) = None" "alive (close_req s) = alive s - {t}"
      "started (close_req s) = started s"
      using h(1) by (rule close_req_fields)+
    from close_req_trace [OF h(1)] obtain pre where
      p: "trace (close_req s)
            = trace s @ pre @ [ThreadJoin t, UiPublish ''settings/state'' (PStr ''closed''),
                               Log Info ''closed'']" "\<forall>n. ThreadStart n \<notin> set pre"
      by blast
    have "trace (open_req s)
            = trace s @ pre @ [ThreadJoin t, UiPublish ''settings/state'' (PStr ''closed''),
                               Log Info ''closed'', Log Info ''open req start'',
                               UiPublish ''settings/state'' (PStr ''opening''),
                               ThreadStart (started s), Log Info ''open req done'']"
      by (simp add: o open_req_no_thread f p)
    with p(2) show ?thesis
      by (auto simp add: o open_req_no_thread f)
  qed
  have k: "open_req (open_req s) = open_req s"
    using open_req_result [of s] by (simp add: open_req_idle)
  from a c j k close_req_no_thread open_req_idle show ?thesis by blast
qed

theorem session_lifecycle_witness:
  "card (alive (run (js220_init ''dev'' ''dev'' ''1'')
                 [OpenReq, OpenReq, WorkerOpened 0 0 0 0, CloseReq, CloseReq, OpenReq])) \<le> 1
   \<and> close_req (js220_init ''dev'' ''dev'' ''1'') = js220_init ''dev'' ''dev'' ''1''
   \<and> thread (open_req ((js220_init ''dev'' ''dev'' ''1'')\<lparr>thread := Some 0, state := 3, started := 1\<rparr>))
       = Some 1
   \<and> alive (open_req ((js220_init ''dev'' ''dev'' ''1'')
                        \<lparr>thread := Some 0, state := 3, alive := {0}, started := 1\<rparr>)) = {1}
   \<and> open_req ((js220_init ''dev'' ''dev'' ''1'')\<lparr>thread := Some 0, state := 1, started := 1\<rparr>)
       = (js220_init ''dev'' ''dev'' ''1'')\<lparr>thread := Some 0, state := 1, started := 1\<rparr>"
  using
    session_lifecycle [of "''dev''" "''dev''" "''1''" "js220_init ''dev'' ''dev'' ''1''" 0]
    session_lifecycle [of "''dev''" "''dev''" "''1''"
      "(js220_init ''dev'' ''dev'' ''1'')\<lparr>thread := Some 0, state := 3, started := 1\<rparr>" 0]
    session_lifecycle [of "''dev''" "''dev''" "''1''"
      "(js220_init ''dev'' ''dev'' ''1'')\<lparr>thread := Some 0, state := 3, alive := {0}, started := 1\<rparr>" 0]
    session_lifecycle [of "''dev''" "''dev''" "''1''"
      "(js220_init ''dev'' ''dev'' ''1'')\<lparr>thread := Some 0, state := 1, started := 1\<rparr>" 0]
  by (simp add: js220_init_def)

end
